theory Spec2Isabelle
  imports Main
begin

section \<open>JavaScript values\<close>

text \<open>
  The evolution manager is untyped JavaScript: a change descriptor's \<open>details\<close> and the
  metamodel operation built from it are plain objects with string keys. Values are the
  primitives a descriptor carries (numbers are the integers used as bounds) and arrays of
  names (\<open>superTypes\<close>). An object is a finite map from keys to values; reading a
  missing key gives \<open>undefined\<close>.
\<close>

datatype jsval = JUndefined | JNull | JBool bool | JNum int | JStr string | JArr "string list"

type_synonym jsobj = "string \<rightharpoonup> jsval"

definition js_get :: "jsobj \<Rightarrow> string \<Rightarrow> jsval" where
  "js_get obj k = (case obj k of None \<Rightarrow> JUndefined | Some v \<Rightarrow> v)"

fun truthy :: "jsval \<Rightarrow> bool" where
  "truthy JUndefined = False"
| "truthy JNull = False"
| "truthy (JBool b) = b"
| "truthy (JNum n) = (n \<noteq> 0)"
| "truthy (JStr s) = (s \<noteq> [])"
| "truthy (JArr xs) = True"

text \<open>\<open>a || b\<close>\<close>

definition js_or :: "jsval \<Rightarrow> jsval \<Rightarrow> jsval" where
  "js_or a b = (if truthy a then a else b)"

text \<open>Decimal rendering of numbers, as template literals and \<open>join\<close> produce it.\<close>

fun show_nat :: "nat \<Rightarrow> string" where
  "show_nat n = (if n < 10 then [''0123456789'' ! n]
                 else show_nat (n div 10) @ [''0123456789'' ! (n mod 10)])"

declare show_nat.simps [simp del]

definition show_int :: "int \<Rightarrow> string" where
  "show_int i = (if i < 0 then CHR ''-'' # show_nat (nat (- i)) else show_nat (nat i))"

fun join :: "string \<Rightarrow> string list \<Rightarrow> string" where
  "join sep [] = []"
| "join sep [x] = x"
| "join sep (x # y # ys) = x @ sep @ join sep (y # ys)"

text \<open>\<open>String(v)\<close>, the conversion a template literal \<open>`${v}`\<close> applies.\<close>

fun js_toString :: "jsval \<Rightarrow> string" where
  "js_toString JUndefined = ''undefined''"
| "js_toString JNull = ''null''"
| "js_toString (JBool b) = (if b then ''true'' else ''false'')"
| "js_toString (JNum n) = show_int n"
| "js_toString (JStr s) = s"
| "js_toString (JArr xs) = join '','' xs"

text \<open>
  \<open>Array.prototype.join\<close> renders \<open>undefined\<close> and \<open>null\<close> elements as the empty
  string and every other element by \<open>String\<close>.
\<close>

definition js_join :: "string \<Rightarrow> jsval list \<Rightarrow> string" where
  "js_join sep vs =
     join sep (map (\<lambda>v. if v = JUndefined \<or> v = JNull then [] else js_toString v) vs)"

text \<open>
  Exceptions are values. \<open>Error m\<close> is \<open>throw new Error(m)\<close>; \<open>TypeError m\<close> is the
  engine's own fault on reading a property of \<open>null\<close>/\<open>undefined\<close> or calling a
  missing method (the wording is V8's).
\<close>

datatype exn = Error string | TypeError string

fun message :: "exn \<Rightarrow> string" where
  "message (Error m) = m"
| "message (TypeError m) = m"

section \<open>MetamodelLoader: the schema store\<close>

text \<open>
  The Ecore library is not part of the repository; its objects are modelled by what the
  loader reads and writes on them. A class is an object with identity (a reference keeps
  pointing to it after a rename or after it leaves the package), so classes live in an
  object store indexed by identity. A feature's \<open>eType\<close> is a data type of the library
  (known by its name), a class object, or a value that is no Ecore object at all
  (on which \<open>.get("name")\<close> raises a \<open>TypeError\<close>). An \<open>EList\<close> is a list:
  \<open>add\<close> appends, \<open>remove\<close> drops the object, and \<open>each\<close> calls the callback on
  every element in order: a \<open>return false\<close> in the callback does not end the iteration
  (the source's comment ``Break the loop'' notwithstanding), so a search that assigns its
  result at every match ends with the last match.
  \<open>create\<close> and \<open>set\<close> store the values they are given.
  \<open>Ecore[name]\<close>, the library's table of built-in types, is a parameter of the store.
\<close>

datatype etype = DataType jsval | ClassObj nat | NotEObject

datatype fkind = EAttribute | EReference

record ENamedElement =
  name :: jsval

record EStructuralFeature = ENamedElement +
  kind :: fkind
  eType :: etype
  containment :: jsval
  lowerBound :: jsval
  upperBound :: jsval

record EClass = ENamedElement +
  abstract :: jsval
  interface :: jsval
  eSuperTypes :: "nat list"
  eStructuralFeatures :: "EStructuralFeature list"

text \<open>A classifier of the package is a class (by identity) or something else (a data type, an enumeration).\<close>

datatype classifier = EClassifier nat | OtherClassifier

record MetamodelLoader =
  Ecore :: "string \<Rightarrow> etype option"
  rootPackage :: "classifier list option"
  objects :: "nat \<Rightarrow> EClass"
  nextObject :: nat

text \<open>
  \<open>rootPackage\<close> is \<open>None\<close> when no package is loaded or the root is not an
  \<open>EPackage\<close>; otherwise it holds the package's \<open>eClassifiers\<close>.
\<close>

fun getAllClasses :: "MetamodelLoader \<Rightarrow> nat list" where
  "getAllClasses L =
     (case rootPackage L of
        None \<Rightarrow> []
      | Some eClassifiers \<Rightarrow>
          concat (map (\<lambda>c. case c of EClassifier i \<Rightarrow> [i] | OtherClassifier \<Rightarrow> []) eClassifiers))"

text \<open>\<open>feature.get("eType").get("name")\<close>\<close>

fun eType_name :: "MetamodelLoader \<Rightarrow> etype \<Rightarrow> exn + jsval" where
  "eType_name L (DataType n) = Inr n"
| "eType_name L (ClassObj i) = Inr (name (objects L i))"
| "eType_name L NotEObject = Inl (TypeError ''feature.get(...).get is not a function'')"

text \<open>The objects \<open>getClassAttributes\<close> and \<open>getClassReferences\<close> push, given the type name read.\<close>

definition attributeInfo :: "EStructuralFeature \<Rightarrow> jsval \<Rightarrow> jsobj" where
  "attributeInfo feature t =
     [''name'' \<mapsto> name feature, ''type'' \<mapsto> t,
      ''lowerBound'' \<mapsto> lowerBound feature, ''upperBound'' \<mapsto> upperBound feature]"

definition referenceInfo :: "EStructuralFeature \<Rightarrow> jsval \<Rightarrow> jsobj" where
  "referenceInfo feature t =
     [''name'' \<mapsto> name feature, ''type'' \<mapsto> t,
      ''containment'' \<mapsto> containment feature,
      ''lowerBound'' \<mapsto> lowerBound feature, ''upperBound'' \<mapsto> upperBound feature]"

text \<open>The loops of \<open>getClassAttributes\<close> and \<open>getClassReferences\<close> over the features of a class.\<close>

fun collectAttributes :: "MetamodelLoader \<Rightarrow> EStructuralFeature list \<Rightarrow> exn + jsobj list" where
  "collectAttributes L [] = Inr []"
| "collectAttributes L (feature # rest) =
     (if kind feature = EAttribute then
        (case eType_name L (eType feature) of
           Inl e \<Rightarrow> Inl e
         | Inr t \<Rightarrow>
             (case collectAttributes L rest of
                Inl e \<Rightarrow> Inl e
              | Inr attributes \<Rightarrow>
                  Inr (attributeInfo feature t # attributes)))
      else collectAttributes L rest)"

fun collectReferences :: "MetamodelLoader \<Rightarrow> EStructuralFeature list \<Rightarrow> exn + jsobj list" where
  "collectReferences L [] = Inr []"
| "collectReferences L (feature # rest) =
     (if kind feature = EReference then
        (case eType_name L (eType feature) of
           Inl e \<Rightarrow> Inl e
         | Inr t \<Rightarrow>
             (case collectReferences L rest of
                Inl e \<Rightarrow> Inl e
              | Inr references \<Rightarrow>
                  Inr (referenceInfo feature t # references)))
      else collectReferences L rest)"

text \<open>\<open>getClassAttributes(eClass)\<close> and \<open>getClassReferences(eClass)\<close> called with a class object.\<close>

definition getClassAttributes :: "MetamodelLoader \<Rightarrow> nat \<Rightarrow> exn + jsobj list" where
  "getClassAttributes L targetClass =
     collectAttributes L (eStructuralFeatures (objects L targetClass))"

definition getClassReferences :: "MetamodelLoader \<Rightarrow> nat \<Rightarrow> exn + jsobj list" where
  "getClassReferences L targetClass =
     collectReferences L (eStructuralFeatures (objects L targetClass))"

text \<open>
  \<open>findClassByName\<close>: \<open>foundClass\<close> starts as \<open>null\<close> and is assigned at every class
  of the package with that name, so the result is the last such class, or \<open>null\<close>.
\<close>

fun findIn ::
  "MetamodelLoader \<Rightarrow> classifier list \<Rightarrow> jsval \<Rightarrow> nat option \<Rightarrow> nat option" where
  "findIn L [] className foundClass = foundClass"
| "findIn L (OtherClassifier # rest) className foundClass = findIn L rest className foundClass"
| "findIn L (EClassifier i # rest) className foundClass =
     findIn L rest className
       (if name (objects L i) = className then Some i else foundClass)"

definition findClassByName :: "MetamodelLoader \<Rightarrow> jsval \<Rightarrow> nat option" where
  "findClassByName L className =
     (case rootPackage L of
        None \<Rightarrow> None
      | Some eClassifiers \<Rightarrow> findIn L eClassifiers className None)"

text \<open>The same queries called with a class name (a string): an unknown class gives the empty list.\<close>

definition getClassAttributes_byName :: "MetamodelLoader \<Rightarrow> string \<Rightarrow> exn + jsobj list" where
  "getClassAttributes_byName L eClass =
     (case findClassByName L (JStr eClass) of
        None \<Rightarrow> Inr []
      | Some targetClass \<Rightarrow> getClassAttributes L targetClass)"

definition getClassReferences_byName :: "MetamodelLoader \<Rightarrow> string \<Rightarrow> exn + jsobj list" where
  "getClassReferences_byName L eClass =
     (case findClassByName L (JStr eClass) of
        None \<Rightarrow> Inr []
      | Some targetClass \<Rightarrow> getClassReferences L targetClass)"

text \<open>
  The mutators. Each returns the exception it raised, if any, together with the store as
  it was left: a mutation made before the \<open>throw\<close> stays. A parameter that may be
  ``a class object or a class name'' is a name when it is a string; any other value of a
  descriptor is no Ecore object, and calling \<open>.get\<close> on it raises a \<open>TypeError\<close>.
\<close>

definition get_on_raw :: "string \<Rightarrow> jsval \<Rightarrow> exn" where
  "get_on_raw expr v =
     (if v = JUndefined \<or> v = JNull
      then TypeError (''Cannot read properties of '' @ js_toString v @ '' (reading 'get')'')
      else TypeError (expr @ ''.get is not a function''))"

text \<open>A default parameter value replaces an argument that is \<open>undefined\<close>.\<close>

definition default_param :: "jsval \<Rightarrow> jsval \<Rightarrow> jsval" where
  "default_param v d = (if v = JUndefined then d else v)"

definition addFeature :: "MetamodelLoader \<Rightarrow> nat \<Rightarrow> EStructuralFeature \<Rightarrow> MetamodelLoader" where
  "addFeature L c feature =
     L\<lparr>objects := (objects L)
          (c := (objects L c)\<lparr>eStructuralFeatures := eStructuralFeatures (objects L c) @ [feature]\<rparr>)\<rparr>"

definition createClass :: "MetamodelLoader \<Rightarrow> jsval \<Rightarrow> exn option \<times> MetamodelLoader" where
  "createClass L className =
     (case rootPackage L of
        None \<Rightarrow> (Some (Error ''No valid package loaded''), L)
      | Some eClassifiers \<Rightarrow>
          if findClassByName L className \<noteq> None
          then (Some (Error (''Class '' @ js_toString className @ '' already exists'')), L)
          else
            (None,
             L\<lparr>rootPackage := Some (eClassifiers @ [EClassifier (nextObject L)]),
               objects := (objects L)
                 (nextObject L :=
                    \<lparr>name = className, abstract = JBool False, interface = JBool False,
                     eSuperTypes = [], eStructuralFeatures = []\<rparr>),
               nextObject := Suc (nextObject L)\<rparr>))"

definition addAttribute ::
  "MetamodelLoader \<Rightarrow> jsval \<Rightarrow> jsval \<Rightarrow> jsval \<Rightarrow> jsval \<Rightarrow> jsval \<Rightarrow> exn option \<times> MetamodelLoader" where
  "addAttribute L eClass attributeName attributeType lowerBound0 upperBound0 =
     (let lowerBound1 = default_param lowerBound0 (JNum 0);
          upperBound1 = default_param upperBound0 (JNum 1)
      in case (case eClass of
                 JStr s \<Rightarrow>
                   (case findClassByName L eClass of
                      None \<Rightarrow> Inl (Error (''Class with name '' @ s @ '' not found''))
                    | Some c \<Rightarrow> Inr (Some c))
               | _ \<Rightarrow> Inr None) of
           Inl e \<Rightarrow> (Some e, L)
         | Inr targetClass \<Rightarrow>
             (case (case attributeType of
                      JStr t \<Rightarrow>
                        (case Ecore L t of
                           None \<Rightarrow> Inl (Error (''DataType '' @ t @ '' not found''))
                         | Some targetType \<Rightarrow> Inr targetType)
                    | _ \<Rightarrow> Inr NotEObject) of
                Inl e \<Rightarrow> (Some e, L)
              | Inr targetType \<Rightarrow>
                  (case targetClass of
                     None \<Rightarrow> (Some (get_on_raw ''targetClass'' eClass), L)
                   | Some c \<Rightarrow>
                       (None,
                        addFeature L c
                          \<lparr>name = attributeName, kind = EAttribute, eType = targetType,
                           containment = JUndefined, lowerBound = lowerBound1,
                           upperBound = upperBound1\<rparr>))))"

definition addReference ::
  "MetamodelLoader \<Rightarrow> jsval \<Rightarrow> jsval \<Rightarrow> jsval \<Rightarrow> jsval \<Rightarrow> jsval \<Rightarrow> jsval
     \<Rightarrow> exn option \<times> MetamodelLoader" where
  "addReference L sourceClass targetClass referenceName containment0 lowerBound0 upperBound0 =
     (let containment1 = default_param containment0 (JBool False);
          lowerBound1 = default_param lowerBound0 (JNum 0);
          upperBound1 = default_param upperBound0 (JNum 1)
      in case (case sourceClass of
                 JStr s \<Rightarrow>
                   (case findClassByName L sourceClass of
                      None \<Rightarrow> Inl (Error (''Source class with name '' @ s @ '' not found''))
                    | Some c \<Rightarrow> Inr (Some c))
               | _ \<Rightarrow> Inr None) of
           Inl e \<Rightarrow> (Some e, L)
         | Inr source \<Rightarrow>
             (case (case targetClass of
                      JStr s \<Rightarrow>
                        (case findClassByName L targetClass of
                           None \<Rightarrow> Inl (Error (''Target class with name '' @ s @ '' not found''))
                         | Some c \<Rightarrow> Inr (Some c))
                    | _ \<Rightarrow> Inr None) of
                Inl e \<Rightarrow> (Some e, L)
              | Inr target \<Rightarrow>
                  (case source of
                     None \<Rightarrow> (Some (get_on_raw ''source'' sourceClass), L)
                   | Some c \<Rightarrow>
                       (let L' = addFeature L c
                                   \<lparr>name = referenceName, kind = EReference,
                                    eType = (case target of Some t \<Rightarrow> ClassObj t | None \<Rightarrow> NotEObject),
                                    containment = containment1, lowerBound = lowerBound1,
                                    upperBound = upperBound1\<rparr>
                        in case target of
                             None \<Rightarrow> (Some (get_on_raw ''target'' targetClass), L')
                           | Some t \<Rightarrow> (None, L')))))"

section \<open>MetamodelEvolutionManager: the operation interpreter\<close>

text \<open>
  Each builder creates the metamodel operation as an object literal and then runs its
  checks; a failed check sets \<open>ambiguous = true\<close> and the reason on that object. The
  comparison \<open>===\<close> of names is equality of values. A builder raises only when a query
  of the store does.
\<close>

definition markAmbiguous :: "jsobj \<Rightarrow> string \<Rightarrow> jsobj" where
  "markAmbiguous operation reason =
     operation(''ambiguous'' \<mapsto> JBool True, ''ambiguityReason'' \<mapsto> JStr reason)"

text \<open>\<open>xs.some(x => x.name === n)\<close>\<close>

definition someNamed :: "jsobj list \<Rightarrow> jsval \<Rightarrow> bool" where
  "someNamed xs n = list_ex (\<lambda>x. js_get x ''name'' = n) xs"

definition createAddClassOperation :: "MetamodelLoader \<Rightarrow> jsobj \<Rightarrow> exn + jsobj" where
  "createAddClassOperation L details =
     (let operation =
            [''action'' \<mapsto> JStr ''addClass'',
             ''className'' \<mapsto> js_get details ''name'',
             ''superTypes'' \<mapsto> js_or (js_get details ''superTypes'') (JArr []),
             ''abstract'' \<mapsto> js_or (js_get details ''abstract'') (JBool False),
             ''interface'' \<mapsto> js_or (js_get details ''interface'') (JBool False),
             ''ambiguous'' \<mapsto> JBool False,
             ''ambiguityReason'' \<mapsto> JNull]
      in if \<not> truthy (js_get details ''name'')
         then Inr (markAmbiguous operation ''Class name is required'')
         else if findClassByName L (js_get details ''name'') \<noteq> None
         then Inr (markAmbiguous operation
                     (''Class '' @ js_toString (js_get details ''name'') @ '' already exists''))
         else Inr operation)"

definition createAddAttributeOperation :: "MetamodelLoader \<Rightarrow> jsobj \<Rightarrow> exn + jsobj" where
  "createAddAttributeOperation L details =
     (let operation =
            [''action'' \<mapsto> JStr ''addAttribute'',
             ''className'' \<mapsto> js_get details ''className'',
             ''attributeName'' \<mapsto> js_get details ''name'',
             ''attributeType'' \<mapsto> js_or (js_get details ''type'') (JStr ''EString''),
             ''lowerBound'' \<mapsto> js_or (js_get details ''lowerBound'') (JNum 0),
             ''upperBound'' \<mapsto> js_or (js_get details ''upperBound'') (JNum 1),
             ''ambiguous'' \<mapsto> JBool False,
             ''ambiguityReason'' \<mapsto> JNull]
      in if \<not> truthy (js_get details ''className'')
         then Inr (markAmbiguous operation ''Class name is required'')
         else if \<not> truthy (js_get details ''name'')
         then Inr (markAmbiguous operation ''Attribute name is required'')
         else
           (case findClassByName L (js_get details ''className'') of
              None \<Rightarrow>
                Inr (markAmbiguous operation
                       (''Class '' @ js_toString (js_get details ''className'') @ '' does not exist''))
            | Some targetClass \<Rightarrow>
                (case getClassAttributes L targetClass of
                   Inl e \<Rightarrow> Inl e
                 | Inr existingAttributes \<Rightarrow>
                     if someNamed existingAttributes (js_get details ''name'')
                     then Inr (markAmbiguous operation
                                 (''Attribute '' @ js_toString (js_get details ''name'')
                                  @ '' already exists in class ''
                                  @ js_toString (js_get details ''className'')))
                     else Inr operation)))"

definition createAddReferenceOperation :: "MetamodelLoader \<Rightarrow> jsobj \<Rightarrow> exn + jsobj" where
  "createAddReferenceOperation L details =
     (let operation =
            [''action'' \<mapsto> JStr ''addReference'',
             ''sourceClassName'' \<mapsto> js_get details ''sourceClassName'',
             ''targetClassName'' \<mapsto> js_get details ''targetClassName'',
             ''referenceName'' \<mapsto> js_get details ''name'',
             ''containment'' \<mapsto> js_or (js_get details ''containment'') (JBool False),
             ''lowerBound'' \<mapsto> js_or (js_get details ''lowerBound'') (JNum 0),
             ''upperBound'' \<mapsto> js_or (js_get details ''upperBound'') (JNum 1),
             ''ambiguous'' \<mapsto> JBool False,
             ''ambiguityReason'' \<mapsto> JNull]
      in if \<not> truthy (js_get details ''sourceClassName'')
         then Inr (markAmbiguous operation ''Source class name is required'')
         else if \<not> truthy (js_get details ''targetClassName'')
         then Inr (markAmbiguous operation ''Target class name is required'')
         else if \<not> truthy (js_get details ''name'')
         then Inr (markAmbiguous operation ''Reference name is required'')
         else
           (case findClassByName L (js_get details ''sourceClassName'') of
              None \<Rightarrow>
                Inr (markAmbiguous operation
                       (''Source class '' @ js_toString (js_get details ''sourceClassName'')
                        @ '' does not exist''))
            | Some sourceClass \<Rightarrow>
                (case findClassByName L (js_get details ''targetClassName'') of
                   None \<Rightarrow>
                     Inr (markAmbiguous operation
                            (''Target class '' @ js_toString (js_get details ''targetClassName'')
                             @ '' does not exist''))
                 | Some targetClass \<Rightarrow>
                     (case getClassReferences L sourceClass of
                        Inl e \<Rightarrow> Inl e
                      | Inr existingReferences \<Rightarrow>
                          if someNamed existingReferences (js_get details ''name'')
                          then Inr (markAmbiguous operation
                                      (''Reference '' @ js_toString (js_get details ''name'')
                                       @ '' already exists in class ''
                                       @ js_toString (js_get details ''sourceClassName'')))
                          else Inr operation))))"

text \<open>
  \<open>_findClassesReferencingClass\<close>: for every class of the package, in order, and every
  reference of it whose type name is \<open>className\<close>, the name of that class.
\<close>

fun referencingAmong :: "MetamodelLoader \<Rightarrow> nat list \<Rightarrow> jsval \<Rightarrow> exn + jsval list" where
  "referencingAmong L [] className = Inr []"
| "referencingAmong L (cls # rest) className =
     (case getClassReferences L cls of
        Inl e \<Rightarrow> Inl e
      | Inr references \<Rightarrow>
          (case referencingAmong L rest className of
             Inl e \<Rightarrow> Inl e
           | Inr others \<Rightarrow>
               Inr (map (\<lambda>ref. name (objects L cls))
                      (filter (\<lambda>ref. js_get ref ''type'' = className) references) @ others)))"

definition findClassesReferencingClass :: "MetamodelLoader \<Rightarrow> jsval \<Rightarrow> exn + jsval list" where
  "findClassesReferencingClass L className = referencingAmong L (getAllClasses L) className"

definition createRemoveClassOperation :: "MetamodelLoader \<Rightarrow> jsobj \<Rightarrow> exn + jsobj" where
  "createRemoveClassOperation L details =
     (let operation =
            [''action'' \<mapsto> JStr ''removeClass'',
             ''className'' \<mapsto> js_get details ''name'',
             ''ambiguous'' \<mapsto> JBool False,
             ''ambiguityReason'' \<mapsto> JNull]
      in if \<not> truthy (js_get details ''name'')
         then Inr (markAmbiguous operation ''Class name is required'')
         else
           (case findClassByName L (js_get details ''name'') of
              None \<Rightarrow>
                Inr (markAmbiguous operation
                       (''Class '' @ js_toString (js_get details ''name'') @ '' does not exist''))
            | Some targetClass \<Rightarrow>
                (case findClassesReferencingClass L (js_get details ''name'') of
                   Inl e \<Rightarrow> Inl e
                 | Inr referencingClasses \<Rightarrow>
                     if length referencingClasses > 0
                     then Inr (markAmbiguous operation
                                 (''Class '' @ js_toString (js_get details ''name'')
                                  @ '' is referenced by: '' @ js_join '', '' referencingClasses))
                     else Inr operation)))"

definition createRemoveAttributeOperation :: "MetamodelLoader \<Rightarrow> jsobj \<Rightarrow> exn + jsobj" where
  "createRemoveAttributeOperation L details =
     (let operation =
            [''action'' \<mapsto> JStr ''removeAttribute'',
             ''className'' \<mapsto> js_get details ''className'',
             ''attributeName'' \<mapsto> js_get details ''name'',
             ''ambiguous'' \<mapsto> JBool False,
             ''ambiguityReason'' \<mapsto> JNull]
      in if \<not> truthy (js_get details ''className'')
         then Inr (markAmbiguous operation ''Class name is required'')
         else if \<not> truthy (js_get details ''name'')
         then Inr (markAmbiguous operation ''Attribute name is required'')
         else
           (case findClassByName L (js_get details ''className'') of
              None \<Rightarrow>
                Inr (markAmbiguous operation
                       (''Class '' @ js_toString (js_get details ''className'') @ '' does not exist''))
            | Some targetClass \<Rightarrow>
                (case getClassAttributes L targetClass of
                   Inl e \<Rightarrow> Inl e
                 | Inr existingAttributes \<Rightarrow>
                     if \<not> someNamed existingAttributes (js_get details ''name'')
                     then Inr (markAmbiguous operation
                                 (''Attribute '' @ js_toString (js_get details ''name'')
                                  @ '' does not exist in class ''
                                  @ js_toString (js_get details ''className'')))
                     else Inr operation)))"

definition createRemoveReferenceOperation :: "MetamodelLoader \<Rightarrow> jsobj \<Rightarrow> exn + jsobj" where
  "createRemoveReferenceOperation L details =
     (let operation =
            [''action'' \<mapsto> JStr ''removeReference'',
             ''className'' \<mapsto> js_get details ''className'',
             ''referenceName'' \<mapsto> js_get details ''name'',
             ''ambiguous'' \<mapsto> JBool False,
             ''ambiguityReason'' \<mapsto> JNull]
      in if \<not> truthy (js_get details ''className'')
         then Inr (markAmbiguous operation ''Class name is required'')
         else if \<not> truthy (js_get details ''name'')
         then Inr (markAmbiguous operation ''Reference name is required'')
         else
           (case findClassByName L (js_get details ''className'') of
              None \<Rightarrow>
                Inr (markAmbiguous operation
                       (''Class '' @ js_toString (js_get details ''className'') @ '' does not exist''))
            | Some targetClass \<Rightarrow>
                (case getClassReferences L targetClass of
                   Inl e \<Rightarrow> Inl e
                 | Inr existingReferences \<Rightarrow>
                     if \<not> someNamed existingReferences (js_get details ''name'')
                     then Inr (markAmbiguous operation
                                 (''Reference '' @ js_toString (js_get details ''name'')
                                  @ '' does not exist in class ''
                                  @ js_toString (js_get details ''className'')))
                     else Inr operation)))"

definition createModifyClassOperation :: "MetamodelLoader \<Rightarrow> jsobj \<Rightarrow> exn + jsobj" where
  "createModifyClassOperation L details =
     (let operation =
            [''action'' \<mapsto> JStr ''modifyClass'',
             ''className'' \<mapsto> js_get details ''name'',
             ''newName'' \<mapsto> js_get details ''newName'',
             ''newSuperTypes'' \<mapsto> js_get details ''newSuperTypes'',
             ''newAbstract'' \<mapsto> js_get details ''newAbstract'',
             ''newInterface'' \<mapsto> js_get details ''newInterface'',
             ''ambiguous'' \<mapsto> JBool False,
             ''ambiguityReason'' \<mapsto> JNull]
      in if \<not> truthy (js_get details ''name'')
         then Inr (markAmbiguous operation ''Class name is required'')
         else
           (case findClassByName L (js_get details ''name'') of
              None \<Rightarrow>
                Inr (markAmbiguous operation
                       (''Class '' @ js_toString (js_get details ''name'') @ '' does not exist''))
            | Some targetClass \<Rightarrow>
                if truthy (js_get details ''newName'')
                   \<and> findClassByName L (js_get details ''newName'') \<noteq> None
                then Inr (markAmbiguous operation
                            (''Class '' @ js_toString (js_get details ''newName'')
                             @ '' already exists''))
                else Inr operation))"

definition createModifyAttributeOperation :: "MetamodelLoader \<Rightarrow> jsobj \<Rightarrow> exn + jsobj" where
  "createModifyAttributeOperation L details =
     (let operation =
            [''action'' \<mapsto> JStr ''modifyAttribute'',
             ''className'' \<mapsto> js_get details ''className'',
             ''attributeName'' \<mapsto> js_get details ''name'',
             ''newName'' \<mapsto> js_get details ''newName'',
             ''newType'' \<mapsto> js_get details ''newType'',
             ''newLowerBound'' \<mapsto> js_get details ''newLowerBound'',
             ''newUpperBound'' \<mapsto> js_get details ''newUpperBound'',
             ''ambiguous'' \<mapsto> JBool False,
             ''ambiguityReason'' \<mapsto> JNull]
      in if \<not> truthy (js_get details ''className'')
         then Inr (markAmbiguous operation ''Class name is required'')
         else if \<not> truthy (js_get details ''name'')
         then Inr (markAmbiguous operation ''Attribute name is required'')
         else
           (case findClassByName L (js_get details ''className'') of
              None \<Rightarrow>
                Inr (markAmbiguous operation
                       (''Class '' @ js_toString (js_get details ''className'') @ '' does not exist''))
            | Some targetClass \<Rightarrow>
                (case getClassAttributes L targetClass of
                   Inl e \<Rightarrow> Inl e
                 | Inr existingAttributes \<Rightarrow>
                     if \<not> someNamed existingAttributes (js_get details ''name'')
                     then Inr (markAmbiguous operation
                                 (''Attribute '' @ js_toString (js_get details ''name'')
                                  @ '' does not exist in class ''
                                  @ js_toString (js_get details ''className'')))
                     else if truthy (js_get details ''newName'')
                             \<and> someNamed existingAttributes (js_get details ''newName'')
                     then Inr (markAmbiguous operation
                                 (''Attribute '' @ js_toString (js_get details ''newName'')
                                  @ '' already exists in class ''
                                  @ js_toString (js_get details ''className'')))
                     else Inr operation)))"

text \<open>
  In \<open>_createModifyReferenceOperation\<close> the check of the new target class is a separate
  \<open>if\<close> statement after the \<open>if\<close>/\<open>else if\<close> on the reference and its new name: it
  runs whenever the class exists, and it overwrites a reason set before it.
\<close>

definition createModifyReferenceOperation :: "MetamodelLoader \<Rightarrow> jsobj \<Rightarrow> exn + jsobj" where
  "createModifyReferenceOperation L details =
     (let operation =
            [''action'' \<mapsto> JStr ''modifyReference'',
             ''className'' \<mapsto> js_get details ''className'',
             ''referenceName'' \<mapsto> js_get details ''name'',
             ''newName'' \<mapsto> js_get details ''newName'',
             ''newTargetClassName'' \<mapsto> js_get details ''newTargetClassName'',
             ''newContainment'' \<mapsto> js_get details ''newContainment'',
             ''newLowerBound'' \<mapsto> js_get details ''newLowerBound'',
             ''newUpperBound'' \<mapsto> js_get details ''newUpperBound'',
             ''ambiguous'' \<mapsto> JBool False,
             ''ambiguityReason'' \<mapsto> JNull]
      in if \<not> truthy (js_get details ''className'')
         then Inr (markAmbiguous operation ''Class name is required'')
         else if \<not> truthy (js_get details ''name'')
         then Inr (markAmbiguous operation ''Reference name is required'')
         else
           (case findClassByName L (js_get details ''className'') of
              None \<Rightarrow>
                Inr (markAmbiguous operation
                       (''Class '' @ js_toString (js_get details ''className'') @ '' does not exist''))
            | Some targetClass \<Rightarrow>
                (case getClassReferences L targetClass of
                   Inl e \<Rightarrow> Inl e
                 | Inr existingReferences \<Rightarrow>
                     (let operation1 =
                            (if \<not> someNamed existingReferences (js_get details ''name'')
                             then markAmbiguous operation
                                    (''Reference '' @ js_toString (js_get details ''name'')
                                     @ '' does not exist in class ''
                                     @ js_toString (js_get details ''className''))
                             else if truthy (js_get details ''newName'')
                                     \<and> someNamed existingReferences (js_get details ''newName'')
                             then markAmbiguous operation
                                    (''Reference '' @ js_toString (js_get details ''newName'')
                                     @ '' already exists in class ''
                                     @ js_toString (js_get details ''className''))
                             else operation)
                      in if truthy (js_get details ''newTargetClassName'')
                            \<and> findClassByName L (js_get details ''newTargetClassName'') = None
                         then Inr (markAmbiguous operation1
                                     (''Target class ''
                                      @ js_toString (js_get details ''newTargetClassName'')
                                      @ '' does not exist''))
                         else Inr operation1))))"

section \<open>The ledger\<close>

text \<open>
  An evolution operation is a mutable object shared by the three arrays of the manager
  (\<open>evolutionOperations\<close>, \<open>ambiguities\<close>, \<open>pendingChanges\<close>), which the code
  searches by identity. The operations therefore live in an object store, and the arrays
  hold references. \<open>error\<close> is the property \<open>applyPendingChanges\<close> adds on failure.
\<close>

record modelChange =
  type :: jsval
  element :: jsval
  details :: jsobj

record operation = modelChange +
  status :: string
  ambiguous :: bool
  ambiguityReason :: jsval
  metamodelOperation :: "jsobj option"
  error :: "string option"

record MetamodelEvolutionManager =
  loader :: MetamodelLoader
  heap :: "nat \<Rightarrow> operation"
  nextRef :: nat
  evolutionOperations :: "nat list"
  ambiguities :: "nat list"
  pendingChanges :: "nat list"

text \<open>The \<open>switch\<close> of \<open>interpretModelChange\<close>; \<open>None\<close> is its \<open>default\<close> case.\<close>

definition buildOperation :: "MetamodelLoader \<Rightarrow> string \<Rightarrow> jsobj \<Rightarrow> (exn + jsobj) option" where
  "buildOperation L tag d =
     (if tag = ''add_class'' then Some (createAddClassOperation L d)
      else if tag = ''add_attribute'' then Some (createAddAttributeOperation L d)
      else if tag = ''add_reference'' then Some (createAddReferenceOperation L d)
      else if tag = ''remove_class'' then Some (createRemoveClassOperation L d)
      else if tag = ''remove_attribute'' then Some (createRemoveAttributeOperation L d)
      else if tag = ''remove_reference'' then Some (createRemoveReferenceOperation L d)
      else if tag = ''modify_class'' then Some (createModifyClassOperation L d)
      else if tag = ''modify_attribute'' then Some (createModifyAttributeOperation L d)
      else if tag = ''modify_reference'' then Some (createModifyReferenceOperation L d)
      else None)"

text \<open>
  The tail of \<open>interpretModelChange\<close>: the ambiguity test reads the flag of the
  metamodel operation (when there is one), files the new object, and appends it to the
  history.
\<close>

definition fileOperation ::
  "operation \<Rightarrow> MetamodelEvolutionManager \<Rightarrow> nat \<times> MetamodelEvolutionManager" where
  "fileOperation operation M =
     (let r = nextRef M in
      case metamodelOperation operation of
        Some metamodelOp \<Rightarrow>
          if truthy (js_get metamodelOp ''ambiguous'')
          then (r, M\<lparr>heap := (heap M)
                        (r := operation\<lparr>ambiguous := True,
                                         ambiguityReason := js_get metamodelOp ''ambiguityReason''\<rparr>),
                      nextRef := Suc r,
                      ambiguities := ambiguities M @ [r],
                      evolutionOperations := evolutionOperations M @ [r]\<rparr>)
          else (r, M\<lparr>heap := (heap M)(r := operation),
                      nextRef := Suc r,
                      pendingChanges := pendingChanges M @ [r],
                      evolutionOperations := evolutionOperations M @ [r]\<rparr>)
      | None \<Rightarrow>
          (r, M\<lparr>heap := (heap M)(r := operation),
                 nextRef := Suc r,
                 pendingChanges := pendingChanges M @ [r],
                 evolutionOperations := evolutionOperations M @ [r]\<rparr>))"

definition interpretModelChange ::
  "modelChange \<Rightarrow> MetamodelEvolutionManager \<Rightarrow> exn + (nat \<times> MetamodelEvolutionManager)" where
  "interpretModelChange change M =
     (let operation =
            \<lparr>type = type change, element = element change, details = details change,
             status = ''pending'', ambiguous = False, ambiguityReason = JNull,
             metamodelOperation = None, error = None\<rparr>
      in case buildOperation (loader M)
                (js_toString (type change) @ ''_'' @ js_toString (element change))
                (details change) of
           Some (Inl e) \<Rightarrow> Inl e
         | Some (Inr metamodelOp) \<Rightarrow>
             Inr (fileOperation (operation\<lparr>metamodelOperation := Some metamodelOp\<rparr>) M)
         | None \<Rightarrow>
             Inr (fileOperation
                    (operation\<lparr>status := ''error'', ambiguous := True,
                               ambiguityReason := JStr ''Unknown change type or element''\<rparr>) M))"

section \<open>The ambiguity resolver\<close>

text \<open>
  \<open>operationIndex\<close> indexes \<open>evolutionOperations\<close>; an index outside the array reads
  \<open>undefined\<close> and the function throws. \<open>Object.assign(target, resolution)\<close> copies
  every key of the resolution over the target.
\<close>

definition resolveAmbiguity ::
  "int \<Rightarrow> jsobj \<Rightarrow> MetamodelEvolutionManager \<Rightarrow> exn + (nat \<times> MetamodelEvolutionManager)" where
  "resolveAmbiguity operationIndex resolution M =
     (if operationIndex < 0 \<or> int (length (evolutionOperations M)) \<le> operationIndex
      then Inl (Error (''Operation at index '' @ show_int operationIndex @ '' not found''))
      else
        (let r = evolutionOperations M ! nat operationIndex;
             operation = heap M r
         in if \<not> ambiguous operation then Inr (r, M)
            else
              (let operation' =
                     operation\<lparr>metamodelOperation :=
                                 (case metamodelOperation operation of
                                    None \<Rightarrow> None
                                  | Some metamodelOp \<Rightarrow> Some (metamodelOp ++ resolution)),
                               ambiguous := False,
                               ambiguityReason := JNull,
                               status := ''pending''\<rparr>;
                   M' = M\<lparr>heap := (heap M)(r := operation')\<rparr>
               in if r \<in> set (ambiguities M)
                  then Inr (r, M'\<lparr>ambiguities := remove1 r (ambiguities M),
                                  pendingChanges :=
                                    (if r \<in> set (pendingChanges M) then pendingChanges M
                                     else pendingChanges M @ [r])\<rparr>)
                  else Inr (r, M'))))"

section \<open>The batch applier\<close>

text \<open>
  The apply procedures look a feature up with \<open>each\<close>, assigning the feature at every
  match of the wanted kind and name, and then change or remove the object they hold at
  the end: the last match. A feature is known by its position in the list of its class;
  \<open>i\<close> is the position of the feature the loop is at.
\<close>

fun findFeatureFrom ::
  "fkind \<Rightarrow> jsval \<Rightarrow> EStructuralFeature list \<Rightarrow> nat \<Rightarrow> nat option \<Rightarrow> nat option" where
  "findFeatureFrom k n [] i found = found"
| "findFeatureFrom k n (feature # rest) i found =
     findFeatureFrom k n rest (Suc i)
       (if kind feature = k \<and> name feature = n then Some i else found)"

definition findFeature :: "fkind \<Rightarrow> jsval \<Rightarrow> EStructuralFeature list \<Rightarrow> nat option" where
  "findFeature k n features = findFeatureFrom k n features 0 None"

fun updateAt :: "nat \<Rightarrow> ('a \<Rightarrow> 'a) \<Rightarrow> 'a list \<Rightarrow> 'a list" where
  "updateAt i g [] = []"
| "updateAt 0 g (x # xs) = g x # xs"
| "updateAt (Suc i) g (x # xs) = x # updateAt i g xs"

fun removeAt :: "nat \<Rightarrow> 'a list \<Rightarrow> 'a list" where
  "removeAt i [] = []"
| "removeAt 0 (x # xs) = xs"
| "removeAt (Suc i) (x # xs) = x # removeAt i xs"

definition updateClass :: "MetamodelLoader \<Rightarrow> nat \<Rightarrow> (EClass \<Rightarrow> EClass) \<Rightarrow> MetamodelLoader" where
  "updateClass L c g = L\<lparr>objects := (objects L)(c := g (objects L c))\<rparr>"

definition setFeature ::
  "MetamodelLoader \<Rightarrow> nat \<Rightarrow> nat \<Rightarrow> (EStructuralFeature \<Rightarrow> EStructuralFeature) \<Rightarrow> MetamodelLoader" where
  "setFeature L c i g =
     updateClass L c (\<lambda>cls. cls\<lparr>eStructuralFeatures := updateAt i g (eStructuralFeatures cls)\<rparr>)"

definition applyAddClass :: "MetamodelLoader \<Rightarrow> jsobj \<Rightarrow> exn option \<times> MetamodelLoader" where
  "applyAddClass L operation = createClass L (js_get operation ''className'')"

definition applyAddAttribute :: "MetamodelLoader \<Rightarrow> jsobj \<Rightarrow> exn option \<times> MetamodelLoader" where
  "applyAddAttribute L operation =
     addAttribute L (js_get operation ''className'') (js_get operation ''attributeName'')
       (js_get operation ''attributeType'') (js_get operation ''lowerBound'')
       (js_get operation ''upperBound'')"

definition applyAddReference :: "MetamodelLoader \<Rightarrow> jsobj \<Rightarrow> exn option \<times> MetamodelLoader" where
  "applyAddReference L operation =
     addReference L (js_get operation ''sourceClassName'') (js_get operation ''targetClassName'')
       (js_get operation ''referenceName'') (js_get operation ''containment'')
       (js_get operation ''lowerBound'') (js_get operation ''upperBound'')"

definition classNotFound :: "jsobj \<Rightarrow> exn" where
  "classNotFound operation =
     Error (''Class '' @ js_toString (js_get operation ''className'') @ '' not found'')"

definition applyRemoveClass :: "MetamodelLoader \<Rightarrow> jsobj \<Rightarrow> exn option \<times> MetamodelLoader" where
  "applyRemoveClass L operation =
     (case findClassByName L (js_get operation ''className'') of
        None \<Rightarrow> (Some (classNotFound operation), L)
      | Some targetClass \<Rightarrow>
          (None, L\<lparr>rootPackage := map_option (remove1 (EClassifier targetClass)) (rootPackage L)\<rparr>))"

definition applyRemoveAttribute :: "MetamodelLoader \<Rightarrow> jsobj \<Rightarrow> exn option \<times> MetamodelLoader" where
  "applyRemoveAttribute L operation =
     (case findClassByName L (js_get operation ''className'') of
        None \<Rightarrow> (Some (classNotFound operation), L)
      | Some targetClass \<Rightarrow>
          (case findFeature EAttribute (js_get operation ''attributeName'')
                  (eStructuralFeatures (objects L targetClass)) of
             None \<Rightarrow>
               (Some (Error (''Attribute '' @ js_toString (js_get operation ''attributeName'')
                             @ '' not found in class ''
                             @ js_toString (js_get operation ''className''))), L)
           | Some i \<Rightarrow>
               (None, updateClass L targetClass
                        (\<lambda>cls. cls\<lparr>eStructuralFeatures :=
                                     removeAt i (eStructuralFeatures cls)\<rparr>))))"

definition applyRemoveReference :: "MetamodelLoader \<Rightarrow> jsobj \<Rightarrow> exn option \<times> MetamodelLoader" where
  "applyRemoveReference L operation =
     (case findClassByName L (js_get operation ''className'') of
        None \<Rightarrow> (Some (classNotFound operation), L)
      | Some targetClass \<Rightarrow>
          (case findFeature EReference (js_get operation ''referenceName'')
                  (eStructuralFeatures (objects L targetClass)) of
             None \<Rightarrow>
               (Some (Error (''Reference '' @ js_toString (js_get operation ''referenceName'')
                             @ '' not found in class ''
                             @ js_toString (js_get operation ''className''))), L)
           | Some i \<Rightarrow>
               (None, updateClass L targetClass
                        (\<lambda>cls. cls\<lparr>eStructuralFeatures :=
                                     removeAt i (eStructuralFeatures cls)\<rparr>))))"

text \<open>The \<open>forEach\<close> over \<open>newSuperTypes\<close>: a name that is not found throws, after the earlier names were added.\<close>

fun addSuperTypes :: "MetamodelLoader \<Rightarrow> nat \<Rightarrow> string list \<Rightarrow> exn option \<times> MetamodelLoader" where
  "addSuperTypes L targetClass [] = (None, L)"
| "addSuperTypes L targetClass (superTypeName # rest) =
     (case findClassByName L (JStr superTypeName) of
        None \<Rightarrow> (Some (Error (''Super type '' @ superTypeName @ '' not found'')), L)
      | Some superType \<Rightarrow>
          addSuperTypes
            (updateClass L targetClass (\<lambda>cls. cls\<lparr>eSuperTypes := eSuperTypes cls @ [superType]\<rparr>))
            targetClass rest)"

definition applyModifyClass :: "MetamodelLoader \<Rightarrow> jsobj \<Rightarrow> exn option \<times> MetamodelLoader" where
  "applyModifyClass L operation =
     (case findClassByName L (js_get operation ''className'') of
        None \<Rightarrow> (Some (classNotFound operation), L)
      | Some targetClass \<Rightarrow>
          (let L1 = (if truthy (js_get operation ''newName'')
                     then updateClass L targetClass (\<lambda>cls. cls\<lparr>name := js_get operation ''newName''\<rparr>)
                     else L);
               L2 = (if js_get operation ''newAbstract'' \<noteq> JUndefined
                     then updateClass L1 targetClass
                            (\<lambda>cls. cls\<lparr>abstract := js_get operation ''newAbstract''\<rparr>)
                     else L1);
               L3 = (if js_get operation ''newInterface'' \<noteq> JUndefined
                     then updateClass L2 targetClass
                            (\<lambda>cls. cls\<lparr>interface := js_get operation ''newInterface''\<rparr>)
                     else L2)
           in if truthy (js_get operation ''newSuperTypes'')
              then
                (let L4 = updateClass L3 targetClass (\<lambda>cls. cls\<lparr>eSuperTypes := []\<rparr>)
                 in case js_get operation ''newSuperTypes'' of
                      JArr names \<Rightarrow> addSuperTypes L4 targetClass names
                    | _ \<Rightarrow> (Some (TypeError ''operation.newSuperTypes.forEach is not a function''), L4))
              else (None, L3)))"

text \<open>The three bound and containment updates guarded by \<open>!== undefined\<close>.\<close>

definition setIfDefined ::
  "MetamodelLoader \<Rightarrow> nat \<Rightarrow> nat \<Rightarrow> jsval \<Rightarrow> (jsval \<Rightarrow> EStructuralFeature \<Rightarrow> EStructuralFeature)
     \<Rightarrow> MetamodelLoader" where
  "setIfDefined L c i v g = (if v \<noteq> JUndefined then setFeature L c i (g v) else L)"

definition applyModifyAttribute :: "MetamodelLoader \<Rightarrow> jsobj \<Rightarrow> exn option \<times> MetamodelLoader" where
  "applyModifyAttribute L operation =
     (case findClassByName L (js_get operation ''className'') of
        None \<Rightarrow> (Some (classNotFound operation), L)
      | Some targetClass \<Rightarrow>
          (case findFeature EAttribute (js_get operation ''attributeName'')
                  (eStructuralFeatures (objects L targetClass)) of
             None \<Rightarrow>
               (Some (Error (''Attribute '' @ js_toString (js_get operation ''attributeName'')
                             @ '' not found in class ''
                             @ js_toString (js_get operation ''className''))), L)
           | Some i \<Rightarrow>
               (let L1 = (if truthy (js_get operation ''newName'')
                          then setFeature L targetClass i (\<lambda>f. f\<lparr>name := js_get operation ''newName''\<rparr>)
                          else L)
                in case (if truthy (js_get operation ''newType'')
                         then (case (case js_get operation ''newType'' of
                                       JStr t \<Rightarrow> Ecore L1 t
                                     | _ \<Rightarrow> Some NotEObject) of
                                 None \<Rightarrow>
                                   Inl (Error (''Type '' @ js_toString (js_get operation ''newType'')
                                               @ '' not found''))
                               | Some newType \<Rightarrow>
                                   Inr (setFeature L1 targetClass i (\<lambda>f. f\<lparr>eType := newType\<rparr>)))
                         else Inr L1) of
                     Inl e \<Rightarrow> (Some e, L1)
                   | Inr L2 \<Rightarrow>
                       (let L3 = setIfDefined L2 targetClass i (js_get operation ''newLowerBound'')
                                   (\<lambda>v f. f\<lparr>lowerBound := v\<rparr>);
                            L4 = setIfDefined L3 targetClass i (js_get operation ''newUpperBound'')
                                   (\<lambda>v f. f\<lparr>upperBound := v\<rparr>)
                        in (None, L4)))))"

definition applyModifyReference :: "MetamodelLoader \<Rightarrow> jsobj \<Rightarrow> exn option \<times> MetamodelLoader" where
  "applyModifyReference L operation =
     (case findClassByName L (js_get operation ''className'') of
        None \<Rightarrow> (Some (classNotFound operation), L)
      | Some targetClass \<Rightarrow>
          (case findFeature EReference (js_get operation ''referenceName'')
                  (eStructuralFeatures (objects L targetClass)) of
             None \<Rightarrow>
               (Some (Error (''Reference '' @ js_toString (js_get operation ''referenceName'')
                             @ '' not found in class ''
                             @ js_toString (js_get operation ''className''))), L)
           | Some i \<Rightarrow>
               (let L1 = (if truthy (js_get operation ''newName'')
                          then setFeature L targetClass i (\<lambda>f. f\<lparr>name := js_get operation ''newName''\<rparr>)
                          else L)
                in case (if truthy (js_get operation ''newTargetClassName'')
                         then (case findClassByName L1 (js_get operation ''newTargetClassName'') of
                                 None \<Rightarrow>
                                   Inl (Error (''Target class ''
                                               @ js_toString (js_get operation ''newTargetClassName'')
                                               @ '' not found''))
                               | Some newTargetClass \<Rightarrow>
                                   Inr (setFeature L1 targetClass i
                                          (\<lambda>f. f\<lparr>eType := ClassObj newTargetClass\<rparr>)))
                         else Inr L1) of
                     Inl e \<Rightarrow> (Some e, L1)
                   | Inr L2 \<Rightarrow>
                       (let L3 = setIfDefined L2 targetClass i (js_get operation ''newContainment'')
                                   (\<lambda>v f. f\<lparr>containment := v\<rparr>);
                            L4 = setIfDefined L3 targetClass i (js_get operation ''newLowerBound'')
                                   (\<lambda>v f. f\<lparr>lowerBound := v\<rparr>);
                            L5 = setIfDefined L4 targetClass i (js_get operation ''newUpperBound'')
                                   (\<lambda>v f. f\<lparr>upperBound := v\<rparr>)
                        in (None, L5)))))"

text \<open>
  \<open>_applyOperation\<close>: reading \<open>.action\<close> of a \<open>null\<close> metamodel operation raises a
  \<open>TypeError\<close>; an action outside the nine throws.
\<close>

definition applyOperation :: "MetamodelLoader \<Rightarrow> operation \<Rightarrow> exn option \<times> MetamodelLoader" where
  "applyOperation L operation =
     (case metamodelOperation operation of
        None \<Rightarrow> (Some (TypeError ''Cannot read properties of null (reading 'action')''), L)
      | Some metamodelOp \<Rightarrow>
          (let action = js_get metamodelOp ''action'' in
           if action = JStr ''addClass'' then applyAddClass L metamodelOp
           else if action = JStr ''addAttribute'' then applyAddAttribute L metamodelOp
           else if action = JStr ''addReference'' then applyAddReference L metamodelOp
           else if action = JStr ''removeClass'' then applyRemoveClass L metamodelOp
           else if action = JStr ''removeAttribute'' then applyRemoveAttribute L metamodelOp
           else if action = JStr ''removeReference'' then applyRemoveReference L metamodelOp
           else if action = JStr ''modifyClass'' then applyModifyClass L metamodelOp
           else if action = JStr ''modifyAttribute'' then applyModifyAttribute L metamodelOp
           else if action = JStr ''modifyReference'' then applyModifyReference L metamodelOp
           else (Some (Error (''Unknown operation action: '' @ js_toString action)), L)))"

record applyResult =
  success :: bool
  appliedChanges :: "nat list"
  failedChanges :: "nat list"
  errors :: "string list"

text \<open>One turn of the \<open>for \<dots> of\<close> loop: the \<open>try\<close> body, or the \<open>catch\<close> block.\<close>

definition applyOne ::
  "nat \<Rightarrow> applyResult \<times> MetamodelEvolutionManager \<Rightarrow> applyResult \<times> MetamodelEvolutionManager" where
  "applyOne r state =
     (let result = fst state; M = snd state in
      case applyOperation (loader M) (heap M r) of
        (None, L') \<Rightarrow>
          (result\<lparr>appliedChanges := appliedChanges result @ [r]\<rparr>,
           M\<lparr>loader := L', heap := (heap M)(r := (heap M r)\<lparr>status := ''applied''\<rparr>)\<rparr>)
      | (Some e, L') \<Rightarrow>
          (result\<lparr>failedChanges := failedChanges result @ [r],
                  errors := errors result @ [''Failed to apply operation: '' @ message e],
                  success := False\<rparr>,
           M\<lparr>loader := L',
             heap := (heap M)(r := (heap M r)\<lparr>status := ''failed'', error := Some (message e)\<rparr>)\<rparr>))"

fun applyEach ::
  "nat list \<Rightarrow> applyResult \<times> MetamodelEvolutionManager \<Rightarrow> applyResult \<times> MetamodelEvolutionManager" where
  "applyEach [] state = state"
| "applyEach (r # rest) state = applyEach rest (applyOne r state)"

definition applyPendingChanges ::
  "MetamodelEvolutionManager \<Rightarrow> applyResult \<times> MetamodelEvolutionManager" where
  "applyPendingChanges M =
     (let result = \<lparr>success = True, appliedChanges = [], failedChanges = [], errors = []\<rparr> in
      if length (ambiguities M) > 0
      then (result\<lparr>success := False,
                   errors := [''There are '' @ show_nat (length (ambiguities M))
                              @ '' unresolved ambiguities. Please resolve them before applying changes.'']\<rparr>,
            M)
      else (case applyEach (pendingChanges M) (result, M) of
              (result', M') \<Rightarrow> (result', M'\<lparr>pendingChanges := []\<rparr>)))"

section \<open>A driver and a sample store\<close>

text \<open>
  The session of \<open>test.js\<close>: interpret the change that adds a class and apply it, then
  interpret the changes that add features to the class and apply them.
\<close>

definition bindE :: "exn + 'a \<Rightarrow> ('a \<Rightarrow> exn + 'b) \<Rightarrow> exn + 'b" where
  "bindE x f = (case x of Inl e \<Rightarrow> Inl e | Inr a \<Rightarrow> f a)"

definition interpretAll ::
  "modelChange list \<Rightarrow> MetamodelEvolutionManager \<Rightarrow> exn + (nat list \<times> MetamodelEvolutionManager)" where
  "interpretAll changes M =
     foldl (\<lambda>acc change.
              bindE acc (\<lambda>(rs, M1).
                bindE (interpretModelChange change M1) (\<lambda>(r, M2). Inr (rs @ [r], M2))))
           (Inr ([], M)) changes"

definition session ::
  "modelChange \<Rightarrow> modelChange list \<Rightarrow> MetamodelEvolutionManager
     \<Rightarrow> exn + (applyResult \<times> applyResult \<times> MetamodelEvolutionManager)" where
  "session addClassChange featureChanges M =
     bindE (interpretModelChange addClassChange M) (\<lambda>(r0, M1).
       case applyPendingChanges M1 of
         (result1, M2) \<Rightarrow>
           bindE (interpretAll featureChanges M2) (\<lambda>(rs, M3).
             case applyPendingChanges M3 of
               (result2, M4) \<Rightarrow> Inr (result1, result2, M4)))"

text \<open>The two results of a session, and the store it leaves.\<close>

definition resultsOf ::
  "exn + (applyResult \<times> applyResult \<times> MetamodelEvolutionManager)
     \<Rightarrow> (applyResult \<times> applyResult) option" where
  "resultsOf x = (case x of Inl e \<Rightarrow> None | Inr (result1, result2, M) \<Rightarrow> Some (result1, result2))"

definition loaderAfter ::
  "exn + (applyResult \<times> applyResult \<times> MetamodelEvolutionManager)
     \<Rightarrow> MetamodelLoader \<Rightarrow> MetamodelLoader" where
  "loaderAfter x L0 = (case x of Inl e \<Rightarrow> L0 | Inr (result1, result2, M) \<Rightarrow> loader M)"

text \<open>The manager as its constructor leaves it, around a loaded store.\<close>

definition blankOperation :: operation where
  "blankOperation =
     \<lparr>type = JUndefined, element = JUndefined, details = Map.empty, status = [],
      ambiguous = False, ambiguityReason = JUndefined, metamodelOperation = None, error = None\<rparr>"

definition newManager :: "MetamodelLoader \<Rightarrow> MetamodelEvolutionManager" where
  "newManager L =
     \<lparr>loader = L, heap = (\<lambda>r. blankOperation), nextRef = 0,
      evolutionOperations = [], ambiguities = [], pendingChanges = []\<rparr>"

text \<open>
  A small package in the manner of \<open>People.ecore\<close>: \<open>Person\<close> contains an
  \<open>Address\<close>, \<open>RoleType\<close> is an enumeration, and \<open>Employee\<close> refers to itself through
  \<open>manager\<close>.
\<close>

definition sampleEcore :: "string \<Rightarrow> etype option" where
  "sampleEcore t =
     (if t = ''EString'' \<or> t = ''EInt'' \<or> t = ''EBoolean'' then Some (DataType (JStr t)) else None)"

definition noClass :: EClass where
  "noClass = \<lparr>name = JUndefined, abstract = JBool False, interface = JBool False,
              eSuperTypes = [], eStructuralFeatures = []\<rparr>"

definition sampleAttribute :: "string \<Rightarrow> string \<Rightarrow> EStructuralFeature" where
  "sampleAttribute n t =
     \<lparr>name = JStr n, kind = EAttribute, eType = DataType (JStr t), containment = JUndefined,
      lowerBound = JNum 0, upperBound = JNum 1\<rparr>"

definition sampleLoader :: MetamodelLoader where
  "sampleLoader =
     \<lparr>Ecore = sampleEcore,
      rootPackage = Some [EClassifier 0, EClassifier 1, OtherClassifier, EClassifier 2],
      objects = (\<lambda>i. noClass)
        (0 := \<lparr>name = JStr ''Person'', abstract = JBool False, interface = JBool False,
               eSuperTypes = [],
               eStructuralFeatures =
                 [sampleAttribute ''name'' ''EString'', sampleAttribute ''age'' ''EInt'',
                  \<lparr>name = JStr ''address'', kind = EReference, eType = ClassObj 1,
                   containment = JBool True, lowerBound = JNum 0, upperBound = JNum 1\<rparr>]\<rparr>,
         1 := \<lparr>name = JStr ''Address'', abstract = JBool False, interface = JBool False,
               eSuperTypes = [],
               eStructuralFeatures =
                 [sampleAttribute ''street'' ''EString'', sampleAttribute ''city'' ''EString'']\<rparr>,
         2 := \<lparr>name = JStr ''Employee'', abstract = JBool False, interface = JBool False,
               eSuperTypes = [],
               eStructuralFeatures =
                 [sampleAttribute ''badge'' ''EInt'',
                  \<lparr>name = JStr ''manager'', kind = EReference, eType = ClassObj 2,
                   containment = JBool False, lowerBound = JNum 0, upperBound = JNum 1\<rparr>]\<rparr>),
      nextObject = 3\<rparr>"

text \<open>What a call of \<open>interpretModelChange\<close> or \<open>resolveAmbiguity\<close> returned, and where the object is filed.\<close>

definition returnedOperation :: "exn + (nat \<times> MetamodelEvolutionManager) \<Rightarrow> operation option" where
  "returnedOperation x = (case x of Inl e \<Rightarrow> None | Inr (r, M) \<Rightarrow> Some (heap M r))"

definition inAmbiguities :: "exn + (nat \<times> MetamodelEvolutionManager) \<Rightarrow> bool" where
  "inAmbiguities x = (case x of Inl e \<Rightarrow> False | Inr (r, M) \<Rightarrow> r \<in> set (ambiguities M))"

definition inPendingChanges :: "exn + (nat \<times> MetamodelEvolutionManager) \<Rightarrow> bool" where
  "inPendingChanges x = (case x of Inl e \<Rightarrow> False | Inr (r, M) \<Rightarrow> r \<in> set (pendingChanges M))"

definition managerAfter ::
  "exn + (nat \<times> MetamodelEvolutionManager) \<Rightarrow> MetamodelEvolutionManager \<Rightarrow> MetamodelEvolutionManager" where
  "managerAfter x M0 = (case x of Inl e \<Rightarrow> M0 | Inr (r, M) \<Rightarrow> M)"

definition intentField :: "exn + (nat \<times> MetamodelEvolutionManager) \<Rightarrow> string \<Rightarrow> jsval option" where
  "intentField x k =
     (case returnedOperation x of
        None \<Rightarrow> None
      | Some operation \<Rightarrow>
          (case metamodelOperation operation of None \<Rightarrow> None | Some m \<Rightarrow> Some (js_get m k)))"

text \<open>Sample inputs.\<close>

definition change :: "string \<Rightarrow> string \<Rightarrow> jsobj \<Rightarrow> modelChange" where
  "change t e d = \<lparr>type = JStr t, element = JStr e, details = d\<rparr>"

definition sampleManager :: MetamodelEvolutionManager where
  "sampleManager = newManager sampleLoader"

definition unknownChange :: modelChange where
  "unknownChange = change ''rename'' ''class'' [''name'' \<mapsto> JStr ''Person'']"

definition zeroBoundsAttribute :: modelChange where
  "zeroBoundsAttribute =
     change ''add'' ''attribute''
       [''className'' \<mapsto> JStr ''Person'', ''name'' \<mapsto> JStr ''nickname'',
        ''lowerBound'' \<mapsto> JNum 0, ''upperBound'' \<mapsto> JNum 0]"

definition removeEmployee :: modelChange where
  "removeEmployee = change ''remove'' ''class'' [''name'' \<mapsto> JStr ''Employee'']"

definition addCustomer :: modelChange where
  "addCustomer = change ''add'' ''class'' [''name'' \<mapsto> JStr ''Customer'', ''abstract'' \<mapsto> JBool False]"

text \<open>The sample manager after one change that is held as ambiguous, and after one that is pending.\<close>

definition ambiguousManager :: MetamodelEvolutionManager where
  "ambiguousManager = managerAfter (interpretModelChange removeEmployee sampleManager) sampleManager"

definition pendingManager :: MetamodelEvolutionManager where
  "pendingManager = managerAfter (interpretModelChange addCustomer sampleManager) sampleManager"

definition retargetMissing :: modelChange where
  "retargetMissing =
     change ''modify'' ''reference''
       [''className'' \<mapsto> JStr ''Person'', ''name'' \<mapsto> JStr ''nosuch'',
        ''newTargetClassName'' \<mapsto> JStr ''Ghost'']"

definition renameMissing :: modelChange where
  "renameMissing =
     change ''modify'' ''reference''
       [''className'' \<mapsto> JStr ''Person'', ''name'' \<mapsto> JStr ''nosuch'',
        ''newName'' \<mapsto> JStr ''address'']"

definition personReferences :: "jsobj list" where
  "personReferences =
     [[''name'' \<mapsto> JStr ''address'', ''type'' \<mapsto> JStr ''Address'',
       ''containment'' \<mapsto> JBool True, ''lowerBound'' \<mapsto> JNum 0, ''upperBound'' \<mapsto> JNum 1]]"

text \<open>A change that is pending but cannot be applied: \<open>Money\<close> is no type of the library.\<close>

definition addSalary :: modelChange where
  "addSalary =
     change ''add'' ''attribute''
       [''className'' \<mapsto> JStr ''Person'', ''name'' \<mapsto> JStr ''salary'', ''type'' \<mapsto> JStr ''Money'']"

definition batchManager :: MetamodelEvolutionManager where
  "batchManager =
     managerAfter (interpretModelChange addSalary pendingManager) pendingManager"

text \<open>The features given to the new class \<open>Customer\<close>.\<close>

definition addFirstName :: modelChange where
  "addFirstName =
     change ''add'' ''attribute''
       [''className'' \<mapsto> JStr ''Customer'', ''name'' \<mapsto> JStr ''firstName'',
        ''type'' \<mapsto> JStr ''EString'', ''lowerBound'' \<mapsto> JNum 1, ''upperBound'' \<mapsto> JNum 1]"

definition addPhones :: modelChange where
  "addPhones =
     change ''add'' ''attribute''
       [''className'' \<mapsto> JStr ''Customer'', ''name'' \<mapsto> JStr ''phones'',
        ''type'' \<mapsto> JStr ''EString'', ''lowerBound'' \<mapsto> JNum 0, ''upperBound'' \<mapsto> JNum (- 1)]"

definition addNoPhones :: modelChange where
  "addNoPhones =
     change ''add'' ''attribute''
       [''className'' \<mapsto> JStr ''Customer'', ''name'' \<mapsto> JStr ''phones'',
        ''type'' \<mapsto> JStr ''EString'', ''lowerBound'' \<mapsto> JNum 0, ''upperBound'' \<mapsto> JNum 0]"

definition addAccountManagers :: modelChange where
  "addAccountManagers =
     change ''add'' ''reference''
       [''sourceClassName'' \<mapsto> JStr ''Customer'', ''targetClassName'' \<mapsto> JStr ''Employee'',
        ''name'' \<mapsto> JStr ''accountManagers'', ''containment'' \<mapsto> JBool False,
        ''lowerBound'' \<mapsto> JNum 0, ''upperBound'' \<mapsto> JNum (- 1)]"

definition addNickname :: modelChange where
  "addNickname =
     change ''add'' ''attribute'' [''className'' \<mapsto> JStr ''Person'', ''name'' \<mapsto> JStr ''nickname'']"

definition personAttributes :: "jsobj list" where
  "personAttributes =
     [[''name'' \<mapsto> JStr ''name'', ''type'' \<mapsto> JStr ''EString'',
       ''lowerBound'' \<mapsto> JNum 0, ''upperBound'' \<mapsto> JNum 1],
      [''name'' \<mapsto> JStr ''age'', ''type'' \<mapsto> JStr ''EInt'',
       ''lowerBound'' \<mapsto> JNum 0, ''upperBound'' \<mapsto> JNum 1]]"

text \<open>
  Two classes of one name: \<open>Person\<close> and \<open>Address\<close> are both renamed to \<open>X\<close> in one
  batch (neither rename collides when it is interpreted).
\<close>

definition renamePerson :: modelChange where
  "renamePerson = change ''modify'' ''class'' [''name'' \<mapsto> JStr ''Person'', ''newName'' \<mapsto> JStr ''X'']"

definition renameAddress :: modelChange where
  "renameAddress = change ''modify'' ''class'' [''name'' \<mapsto> JStr ''Address'', ''newName'' \<mapsto> JStr ''X'']"

definition homonymManager :: MetamodelEvolutionManager where
  "homonymManager =
     snd (applyPendingChanges
            (managerAfter (interpretModelChange renameAddress
               (managerAfter (interpretModelChange renamePerson sampleManager) sampleManager))
               sampleManager))"

definition addStreetToX :: modelChange where
  "addStreetToX =
     change ''add'' ''attribute'' [''className'' \<mapsto> JStr ''X'', ''name'' \<mapsto> JStr ''street'']"

definition modifyAddressOfX :: modelChange where
  "modifyAddressOfX =
     change ''modify'' ''reference'' [''className'' \<mapsto> JStr ''X'', ''name'' \<mapsto> JStr ''address'']"

section \<open>Properties\<close>

lemmas builder_defs =
  createAddClassOperation_def createAddAttributeOperation_def createAddReferenceOperation_def
  createRemoveClassOperation_def createRemoveAttributeOperation_def
  createRemoveReferenceOperation_def createModifyClassOperation_def
  createModifyAttributeOperation_def createModifyReferenceOperation_def

lemmas query_defs =
  findClassByName_def getClassAttributes_def getClassReferences_def
  findClassesReferencingClass_def someNamed_def js_join_def attributeInfo_def referenceInfo_def
  findFeature_def

lemmas sample_defs =
  sampleManager_def newManager_def sampleLoader_def sampleEcore_def sampleAttribute_def
  noClass_def blankOperation_def change_def

lemmas observer_defs =
  returnedOperation_def inAmbiguities_def inPendingChanges_def managerAfter_def intentField_def

lemmas interpret_defs =
  interpretModelChange_def buildOperation_def fileOperation_def markAmbiguous_def
  js_get_def js_or_def

subsection \<open>Objects\<close>

lemma js_get_markAmbiguous:
  "k \<noteq> ''ambiguous'' \<Longrightarrow> k \<noteq> ''ambiguityReason'' \<Longrightarrow> js_get (markAmbiguous m r) k = js_get m k"
  by (simp add: js_get_def markAmbiguous_def)

lemma js_get_upd: "js_get (m(k \<mapsto> v)) k' = (if k' = k then v else js_get m k')"
  by (simp add: js_get_def)

lemma markAmbiguous_flag:
  "js_get (markAmbiguous m r) ''ambiguous'' = JBool True"
  "js_get (markAmbiguous m r) ''ambiguityReason'' = JStr r"
  by (simp_all add: js_get_def markAmbiguous_def)

subsection \<open>Searches keep the last match\<close>

text \<open>
  After \<open>Person\<close> and \<open>Address\<close> have both been renamed to \<open>X\<close>, the name \<open>X\<close>
  finds the later of the two classes, the former \<open>Address\<close>: it has an attribute
  \<open>street\<close> and no reference \<open>address\<close>.
\<close>

lemma homonymManager_store:
  "rootPackage (loader homonymManager)
     = Some [EClassifier 0, EClassifier 1, OtherClassifier, EClassifier 2]"
  "name (objects (loader homonymManager) 0) = JStr ''X''"
  "name (objects (loader homonymManager) 1) = JStr ''X''"
  "findClassByName (loader homonymManager) (JStr ''X'') = Some 1"
  by (simp_all add: homonymManager_def renamePerson_def renameAddress_def sample_defs
      interpret_defs builder_defs query_defs observer_defs applyPendingChanges_def applyOne_def
      applyOperation_def applyModifyClass_def updateClass_def)

lemma homonyms_resolve_to_the_last_class:
  "map_option ambiguityReason (returnedOperation (interpretModelChange addStreetToX homonymManager))
     = Some (JStr ''Attribute street already exists in class X'')
   \<and> map_option ambiguityReason
       (returnedOperation (interpretModelChange modifyAddressOfX homonymManager))
     = Some (JStr ''Reference address does not exist in class X'')"
  by (simp add: addStreetToX_def modifyAddressOfX_def homonymManager_def renamePerson_def
      renameAddress_def sample_defs
      interpret_defs builder_defs query_defs observer_defs applyPendingChanges_def applyOne_def
      applyOperation_def applyModifyClass_def updateClass_def)

lemma findFeature_last_match:
  "findFeature EAttribute (JStr ''tag'')
     [sampleAttribute ''tag'' ''EString'', sampleAttribute ''age'' ''EInt'',
      sampleAttribute ''tag'' ''EInt''] = Some 2"
  by (simp add: findFeature_def sampleAttribute_def)

subsection \<open>Filing of an unrecognised change\<close>

text \<open>
  Claim C1. Every interpreted operation that is ambiguous is in the ambiguity set and not
  in the pending queue; in particular a change with an unrecognised pair of type and
  element gives an operation without a metamodel operation, marked ambiguous with the
  reason ``Unknown change type or element'', filed into the ambiguity set and never into
  the pending queue.

  The code does not do this. The \<open>default\<close> case marks the operation ambiguous, but
  the filing test reads the flag of the metamodel operation, which is \<open>null\<close> here: the
  operation goes to \<open>pendingChanges\<close> and not to \<open>ambiguities\<close>.
\<close>

theorem unknown_change_is_filed_pending:
  assumes "buildOperation (loader M) (js_toString (type c) @ ''_'' @ js_toString (element c))
             (details c) = None"
    and "nextRef M \<notin> set (ambiguities M)"
  shows "map_option ambiguous (returnedOperation (interpretModelChange c M)) = Some True
       \<and> map_option ambiguityReason (returnedOperation (interpretModelChange c M))
           = Some (JStr ''Unknown change type or element'')
       \<and> map_option metamodelOperation (returnedOperation (interpretModelChange c M)) = Some None
       \<and> inPendingChanges (interpretModelChange c M)
       \<and> \<not> inAmbiguities (interpretModelChange c M)"
  using assms
  by (simp add: interpretModelChange_def fileOperation_def returnedOperation_def
      inPendingChanges_def inAmbiguities_def Let_def)

theorem unknown_change_is_filed_pending_witness:
  "map_option ambiguous (returnedOperation (interpretModelChange unknownChange sampleManager))
     = Some True
   \<and> map_option ambiguityReason (returnedOperation (interpretModelChange unknownChange sampleManager))
     = Some (JStr ''Unknown change type or element'')
   \<and> inPendingChanges (interpretModelChange unknownChange sampleManager)
   \<and> \<not> inAmbiguities (interpretModelChange unknownChange sampleManager)"
proof -
  have a: "buildOperation (loader sampleManager)
             (js_toString (type unknownChange) @ ''_'' @ js_toString (element unknownChange))
             (details unknownChange) = None"
    by (simp add: buildOperation_def unknownChange_def change_def)
  have b: "nextRef sampleManager \<notin> set (ambiguities sampleManager)"
    by (simp add: sampleManager_def newManager_def)
  show ?thesis using unknown_change_is_filed_pending [OF a b] by simp
qed

text \<open>For the nine recognised pairs the object is filed as its flag says.\<close>

lemma recognised_change_is_filed_by_its_flag:
  assumes "buildOperation (loader M) (js_toString (type c) @ ''_'' @ js_toString (element c))
             (details c) = Some (Inr m)"
    and "nextRef M \<notin> set (ambiguities M)" and "nextRef M \<notin> set (pendingChanges M)"
  shows "map_option ambiguous (returnedOperation (interpretModelChange c M))
           = Some (inAmbiguities (interpretModelChange c M)
                   \<and> \<not> inPendingChanges (interpretModelChange c M))
       \<and> map_option ambiguous (returnedOperation (interpretModelChange c M))
           = Some (\<not> (inPendingChanges (interpretModelChange c M)
                       \<and> \<not> inAmbiguities (interpretModelChange c M)))"
  using assms
  by (simp add: interpretModelChange_def fileOperation_def returnedOperation_def
      inPendingChanges_def inAmbiguities_def Let_def)

subsection \<open>Refusal of a batch while ambiguities remain\<close>

text \<open>
  Claim C4. Whenever the ambiguity set is not empty, \<open>applyPendingChanges\<close> refuses the
  whole call: the result has \<open>success = false\<close> and a single error that cites the number
  of unresolved ambiguities, nothing is listed as applied or failed, and the manager is
  returned as it was (no mutation of the store, no operation changed, the pending queue
  untouched).
\<close>

theorem applyPending_refused_while_ambiguous:
  assumes "ambiguities M \<noteq> []"
  shows "applyPendingChanges M =
           (\<lparr>success = False, appliedChanges = [], failedChanges = [],
             errors = [''There are '' @ show_nat (length (ambiguities M))
                       @ '' unresolved ambiguities. Please resolve them before applying changes.'']\<rparr>,
            M)"
  using assms by (simp add: applyPendingChanges_def)

lemma ambiguousManager_ambiguities: "ambiguities ambiguousManager = [0]"
  by (simp add: ambiguousManager_def removeEmployee_def sample_defs interpret_defs builder_defs
      query_defs observer_defs)

theorem applyPending_refused_while_ambiguous_witness:
  "ambiguities ambiguousManager \<noteq> []
   \<and> applyPendingChanges ambiguousManager =
       (\<lparr>success = False, appliedChanges = [], failedChanges = [],
         errors = [''There are 1 unresolved ambiguities. Please resolve them before applying changes.'']\<rparr>,
        ambiguousManager)"
proof -
  have h: "ambiguities ambiguousManager \<noteq> []"
    by (simp add: ambiguousManager_ambiguities)
  show ?thesis
    using applyPending_refused_while_ambiguous [OF h] h
    by (simp add: ambiguousManager_ambiguities show_nat.simps)
qed

subsection \<open>Resolution\<close>

text \<open>
  Claim C7. For every index of a known operation that is not ambiguous,
  \<open>resolveAmbiguity\<close> returns that operation and changes nothing: the manager after the
  call is the manager before it, so the metamodel operation, the status and the reason
  of the operation are the same and it stays where it was filed.
\<close>

theorem resolve_not_ambiguous_is_noop:
  assumes "0 \<le> i" and "i < int (length (evolutionOperations M))"
    and "\<not> ambiguous (heap M (evolutionOperations M ! nat i))"
  shows "resolveAmbiguity i resolution M = Inr (evolutionOperations M ! nat i, M)"
  using assms by (simp add: resolveAmbiguity_def Let_def)

lemma pendingManager_facts:
  "evolutionOperations pendingManager = [0]" "\<not> ambiguous (heap pendingManager 0)"
  by (simp_all add: pendingManager_def addCustomer_def sample_defs interpret_defs builder_defs
      query_defs observer_defs)

theorem resolve_not_ambiguous_is_noop_witness:
  "\<not> ambiguous (heap pendingManager (evolutionOperations pendingManager ! nat 0))
   \<and> resolveAmbiguity 0 [''className'' \<mapsto> JStr ''Client''] pendingManager = Inr (0, pendingManager)"
proof -
  have a: "(0::int) \<le> 0" by simp
  have b: "(0::int) < int (length (evolutionOperations pendingManager))"
    by (simp add: pendingManager_facts)
  have c: "\<not> ambiguous (heap pendingManager (evolutionOperations pendingManager ! nat 0))"
    by (simp add: pendingManager_facts)
  show ?thesis
    using resolve_not_ambiguous_is_noop [OF a b c, of "[''className'' \<mapsto> JStr ''Client'']"] c
    by (simp add: pendingManager_facts)
qed

text \<open>
  Claim C10. For every ambiguous operation and every resolution, \<open>resolveAmbiguity\<close>
  merges the fields of the resolution into the metamodel operation only: the \<open>type\<close>,
  the \<open>element\<close> and the \<open>details\<close> of the operation are what they were.
\<close>

theorem resolve_changes_only_the_intent:
  assumes "0 \<le> i" and "i < int (length (evolutionOperations M))"
    and "r = evolutionOperations M ! nat i"
    and "ambiguous (heap M r)"
  shows "map_option type (returnedOperation (resolveAmbiguity i resolution M))
           = Some (type (heap M r))
       \<and> map_option element (returnedOperation (resolveAmbiguity i resolution M))
           = Some (element (heap M r))
       \<and> map_option details (returnedOperation (resolveAmbiguity i resolution M))
           = Some (details (heap M r))
       \<and> map_option metamodelOperation (returnedOperation (resolveAmbiguity i resolution M))
           = Some (map_option (\<lambda>metamodelOp. metamodelOp ++ resolution)
                     (metamodelOperation (heap M r)))"
  using assms
  by (simp add: resolveAmbiguity_def returnedOperation_def Let_def split: option.splits)

lemma ambiguousManager_facts:
  "evolutionOperations ambiguousManager = [0]" "ambiguous (heap ambiguousManager 0)"
  "type (heap ambiguousManager 0) = JStr ''remove''"
  "element (heap ambiguousManager 0) = JStr ''class''"
  by (simp_all add: ambiguousManager_def removeEmployee_def sample_defs interpret_defs
      builder_defs query_defs observer_defs)

theorem resolve_changes_only_the_intent_witness:
  "ambiguous (heap ambiguousManager 0)
   \<and> map_option type
       (returnedOperation (resolveAmbiguity 0 [''className'' \<mapsto> JStr ''Person''] ambiguousManager))
     = Some (JStr ''remove'')
   \<and> map_option element
       (returnedOperation (resolveAmbiguity 0 [''className'' \<mapsto> JStr ''Person''] ambiguousManager))
     = Some (JStr ''class'')"
proof -
  have a: "(0::int) \<le> 0" by simp
  have b: "(0::int) < int (length (evolutionOperations ambiguousManager))"
    by (simp add: ambiguousManager_facts)
  have c: "(0::nat) = evolutionOperations ambiguousManager ! nat 0"
    by (simp add: ambiguousManager_facts)
  have d: "ambiguous (heap ambiguousManager 0)"
    by (simp add: ambiguousManager_facts)
  show ?thesis
    using resolve_changes_only_the_intent
            [OF a b c d, of "[''className'' \<mapsto> JStr ''Person'']"] d
    by (simp add: ambiguousManager_facts)
qed

subsection \<open>Defaults of the bounds\<close>

lemma addAttribute_bounds:
  assumes "createAddAttributeOperation L d = Inr m"
  shows "js_get m ''upperBound'' = js_or (js_get d ''upperBound'') (JNum 1)
       \<and> js_get m ''lowerBound'' = js_or (js_get d ''lowerBound'') (JNum 0)"
  using assms unfolding createAddAttributeOperation_def Let_def
  by (auto split: if_splits option.splits sum.splits simp: js_get_markAmbiguous js_get_upd)

lemma addReference_bounds:
  assumes "createAddReferenceOperation L d = Inr m"
  shows "js_get m ''upperBound'' = js_or (js_get d ''upperBound'') (JNum 1)
       \<and> js_get m ''lowerBound'' = js_or (js_get d ''lowerBound'') (JNum 0)"
  using assms unfolding createAddReferenceOperation_def Let_def
  by (auto split: if_splits option.splits sum.splits simp: js_get_markAmbiguous js_get_upd)

lemma intentField_fileOperation:
  "intentField (Inr (fileOperation operation M)) k =
     (case metamodelOperation operation of None \<Rightarrow> None | Some m \<Rightarrow> Some (js_get m k))"
  by (simp add: intentField_def returnedOperation_def fileOperation_def Let_def
      split: option.splits)

lemma interpret_add_attribute:
  assumes "type c = JStr ''add''" and "element c = JStr ''attribute''"
  shows "intentField (interpretModelChange c M) k =
           (case createAddAttributeOperation (loader M) (details c) of
              Inl e \<Rightarrow> None | Inr m \<Rightarrow> Some (js_get m k))"
  using assms
  by (simp add: interpretModelChange_def buildOperation_def intentField_fileOperation
      split: sum.splits)
     (simp add: intentField_def returnedOperation_def)

lemma interpret_add_reference:
  assumes "type c = JStr ''add''" and "element c = JStr ''reference''"
  shows "intentField (interpretModelChange c M) k =
           (case createAddReferenceOperation (loader M) (details c) of
              Inl e \<Rightarrow> None | Inr m \<Rightarrow> Some (js_get m k))"
  using assms
  by (simp add: interpretModelChange_def buildOperation_def intentField_fileOperation
      split: sum.splits)
     (simp add: intentField_def returnedOperation_def)

text \<open>
  Claim C9. For every change that adds an attribute or a reference and supplies an upper
  bound of 0, the metamodel operation carries the upper bound 1: the default replaces
  every falsy value that was supplied, not only a missing one. A supplied lower bound
  of 0 stays 0.
\<close>

theorem falsy_upper_bound_becomes_one:
  assumes "type c = JStr ''add''"
    and "element c = JStr ''attribute'' \<or> element c = JStr ''reference''"
    and "returnedOperation (interpretModelChange c M) \<noteq> None"
  shows "(details c ''upperBound'' = Some (JNum 0) \<longrightarrow>
            intentField (interpretModelChange c M) ''upperBound'' = Some (JNum 1))
       \<and> (\<not> truthy (js_get (details c) ''upperBound'') \<longrightarrow>
            intentField (interpretModelChange c M) ''upperBound'' = Some (JNum 1))
       \<and> (details c ''lowerBound'' = Some (JNum 0) \<longrightarrow>
            intentField (interpretModelChange c M) ''lowerBound'' = Some (JNum 0))"
proof -
  from assms(2) show ?thesis
  proof
    assume e: "element c = JStr ''attribute''"
    from assms(3) obtain m where m: "createAddAttributeOperation (loader M) (details c) = Inr m"
      using assms(1) e
      by (auto simp add: interpretModelChange_def buildOperation_def returnedOperation_def
          split: sum.splits)
    show ?thesis
      using addAttribute_bounds [OF m]
      by (auto simp add: interpret_add_attribute [OF assms(1) e] m js_or_def js_get_def)
  next
    assume e: "element c = JStr ''reference''"
    from assms(3) obtain m where m: "createAddReferenceOperation (loader M) (details c) = Inr m"
      using assms(1) e
      by (auto simp add: interpretModelChange_def buildOperation_def returnedOperation_def
          split: sum.splits)
    show ?thesis
      using addReference_bounds [OF m]
      by (auto simp add: interpret_add_reference [OF assms(1) e] m js_or_def js_get_def)
  qed
qed

lemma zeroBoundsAttribute_returns:
  "returnedOperation (interpretModelChange zeroBoundsAttribute sampleManager) \<noteq> None"
  by (simp add: zeroBoundsAttribute_def sample_defs interpret_defs builder_defs query_defs
      observer_defs)

theorem falsy_upper_bound_becomes_one_witness:
  "details zeroBoundsAttribute ''upperBound'' = Some (JNum 0)
   \<and> details zeroBoundsAttribute ''lowerBound'' = Some (JNum 0)
   \<and> intentField (interpretModelChange zeroBoundsAttribute sampleManager) ''upperBound''
     = Some (JNum 1)
   \<and> intentField (interpretModelChange zeroBoundsAttribute sampleManager) ''lowerBound''
     = Some (JNum 0)"
proof -
  have t: "type zeroBoundsAttribute = JStr ''add''"
    by (simp add: zeroBoundsAttribute_def change_def)
  have e: "element zeroBoundsAttribute = JStr ''attribute''
         \<or> element zeroBoundsAttribute = JStr ''reference''"
    by (simp add: zeroBoundsAttribute_def change_def)
  have d: "details zeroBoundsAttribute ''upperBound'' = Some (JNum 0)
         \<and> details zeroBoundsAttribute ''lowerBound'' = Some (JNum 0)"
    by (simp add: zeroBoundsAttribute_def change_def)
  show ?thesis
    using falsy_upper_bound_becomes_one [OF t e zeroBoundsAttribute_returns] d by blast
qed

subsection \<open>Removing a class\<close>

text \<open>
  Claim C2. For every class name X present in the store, interpreting the removal of X
  gives an ambiguous operation exactly when some other class holds a reference whose
  type is X, and then the reason lists the names of all referencing classes; when no
  other class refers to X, the operation is pending.

  The code searches the references of every class of the package, X itself included
  (its comment reads ``check if class is referenced by other classes''). In the sample
  store only \<open>Employee\<close> refers to \<open>Employee\<close>, and its removal is held as ambiguous.
\<close>

theorem self_reference_blocks_removal:
  "findClassByName sampleLoader (JStr ''Employee'') = Some 2
   \<and> findClassesReferencingClass sampleLoader (JStr ''Employee'') = Inr [JStr ''Employee'']
   \<and> map_option ambiguous (returnedOperation (interpretModelChange removeEmployee sampleManager))
       = Some True
   \<and> map_option ambiguityReason (returnedOperation (interpretModelChange removeEmployee sampleManager))
       = Some (JStr ''Class Employee is referenced by: Employee'')
   \<and> inAmbiguities (interpretModelChange removeEmployee sampleManager)
   \<and> \<not> inPendingChanges (interpretModelChange removeEmployee sampleManager)"
  by (simp add: removeEmployee_def sample_defs interpret_defs builder_defs query_defs
      observer_defs)

text \<open>
  What the code does for every store: the names collected are those of all classes of the
  package that hold a reference whose type name is the given one, and the removal of an
  existing class is ambiguous exactly when that list is not empty.
\<close>

lemma referencingAmong_set:
  assumes "referencingAmong L cs v = Inr names"
  shows "set names =
           {name (objects L c) | c refs ref.
              c \<in> set cs \<and> getClassReferences L c = Inr refs \<and> ref \<in> set refs
              \<and> js_get ref ''type'' = v}"
  using assms
proof (induction cs arbitrary: names)
  case Nil
  then show ?case by simp
next
  case (Cons c cs)
  then obtain refs others where r: "getClassReferences L c = Inr refs"
    and o: "referencingAmong L cs v = Inr others"
    and n: "names = map (\<lambda>ref. name (objects L c))
                      (filter (\<lambda>ref. js_get ref ''type'' = v) refs) @ others"
    by (auto split: sum.splits)
  have "set others = {name (objects L c) | c refs ref.
              c \<in> set cs \<and> getClassReferences L c = Inr refs \<and> ref \<in> set refs
              \<and> js_get ref ''type'' = v}"
    by (rule Cons.IH [OF o])
  then show ?case
    using r n by (auto; blast)
qed

lemma remove_class_outcome:
  assumes "type c = JStr ''remove''" and "element c = JStr ''class''"
    and "truthy (js_get (details c) ''name'')"
    and "findClassByName (loader M) (js_get (details c) ''name'') = Some k"
    and "findClassesReferencingClass (loader M) (js_get (details c) ''name'') = Inr names"
  shows "map_option ambiguous (returnedOperation (interpretModelChange c M)) = Some (names \<noteq> [])
       \<and> map_option ambiguityReason (returnedOperation (interpretModelChange c M))
           = Some (if names \<noteq> []
                   then JStr (''Class '' @ js_toString (js_get (details c) ''name'')
                              @ '' is referenced by: '' @ js_join '', '' names)
                   else JNull)"
proof (cases "names = []")
  case True
  have "\<exists>m. createRemoveClassOperation (loader M) (details c) = Inr m
          \<and> js_get m ''ambiguous'' = JBool False"
    using assms True by (simp add: createRemoveClassOperation_def Let_def) (simp add: js_get_def)
  then obtain m where "createRemoveClassOperation (loader M) (details c) = Inr m"
    and "js_get m ''ambiguous'' = JBool False" by blast
  then show ?thesis
    using assms(1,2) True
    by (simp add: interpretModelChange_def buildOperation_def fileOperation_def
        returnedOperation_def Let_def)
next
  case False
  have "\<exists>m. createRemoveClassOperation (loader M) (details c) = Inr m
          \<and> js_get m ''ambiguous'' = JBool True
          \<and> js_get m ''ambiguityReason''
              = JStr (''Class '' @ js_toString (js_get (details c) ''name'')
                      @ '' is referenced by: '' @ js_join '', '' names)"
    using assms False by (simp add: createRemoveClassOperation_def Let_def markAmbiguous_flag)
  then obtain m where "createRemoveClassOperation (loader M) (details c) = Inr m"
    and "js_get m ''ambiguous'' = JBool True"
    and "js_get m ''ambiguityReason''
              = JStr (''Class '' @ js_toString (js_get (details c) ''name'')
                      @ '' is referenced by: '' @ js_join '', '' names)" by blast
  then show ?thesis
    using assms(1,2) False
    by (simp add: interpretModelChange_def buildOperation_def fileOperation_def
        returnedOperation_def Let_def)
qed

subsection \<open>The reason recorded for a modified reference\<close>

text \<open>
  The claim C5 says that the reason recorded for a change of a reference is always the
  first violation in the order class name, reference name, class exists, reference
  exists, new name unused, new target class exists. Here the reference \<open>nosuch\<close> does
  not exist in \<open>Person\<close> and the new target class \<open>Ghost\<close> does not exist either: the
  reason cites the target class, not the reference.
\<close>

theorem retarget_reason_hides_missing_reference:
  "findClassByName sampleLoader (JStr ''Person'') = Some 0
   \<and> findFeature EReference (JStr ''nosuch'') (eStructuralFeatures (objects sampleLoader 0)) = None
   \<and> findClassByName sampleLoader (JStr ''Ghost'') = None
   \<and> map_option ambiguityReason (returnedOperation (interpretModelChange retargetMissing sampleManager))
       = Some (JStr ''Target class Ghost does not exist'')
   \<and> map_option ambiguityReason (returnedOperation (interpretModelChange retargetMissing sampleManager))
       \<noteq> Some (JStr ''Reference nosuch does not exist in class Person'')"
  by (simp add: retargetMissing_def sample_defs interpret_defs builder_defs query_defs
      observer_defs)

lemma reason_fileOperation:
  "map_option ambiguityReason (returnedOperation (Inr (fileOperation operation M))) =
     Some (case metamodelOperation operation of
             None \<Rightarrow> ambiguityReason operation
           | Some m \<Rightarrow> if truthy (js_get m ''ambiguous'') then js_get m ''ambiguityReason''
                       else ambiguityReason operation)"
  by (simp add: returnedOperation_def fileOperation_def Let_def split: option.splits)

lemma interpret_modify_reference:
  assumes "type c = JStr ''modify''" and "element c = JStr ''reference''"
    and "createModifyReferenceOperation (loader M) (details c) = Inr m"
  shows "map_option ambiguityReason (returnedOperation (interpretModelChange c M)) =
           Some (if truthy (js_get m ''ambiguous'') then js_get m ''ambiguityReason'' else JNull)"
  using assms
  by (simp add: interpretModelChange_def buildOperation_def reason_fileOperation)

text \<open>
  Claim C5, as the code has it. For every change of a reference, the checks class name
  present, reference name present, class exists run in this order and stop at the first
  violation. When the class exists, the reason is that of the new target class whenever
  the change names a new target class that does not exist; otherwise it is the first
  violation of: the reference exists, then (if renamed) the new name is not used yet.
\<close>

theorem modify_reference_reason:
  assumes "type c = JStr ''modify''" and "element c = JStr ''reference''"
  shows "(\<not> truthy (js_get (details c) ''className'') \<longrightarrow>
            map_option ambiguityReason (returnedOperation (interpretModelChange c M))
              = Some (JStr ''Class name is required''))
       \<and> (truthy (js_get (details c) ''className'') \<and> \<not> truthy (js_get (details c) ''name'') \<longrightarrow>
            map_option ambiguityReason (returnedOperation (interpretModelChange c M))
              = Some (JStr ''Reference name is required''))
       \<and> (truthy (js_get (details c) ''className'') \<and> truthy (js_get (details c) ''name'')
            \<and> findClassByName (loader M) (js_get (details c) ''className'') = None \<longrightarrow>
            map_option ambiguityReason (returnedOperation (interpretModelChange c M))
              = Some (JStr (''Class '' @ js_toString (js_get (details c) ''className'')
                            @ '' does not exist'')))
       \<and> (truthy (js_get (details c) ''className'') \<and> truthy (js_get (details c) ''name'')
            \<and> findClassByName (loader M) (js_get (details c) ''className'') = Some k
            \<and> getClassReferences (loader M) k = Inr refs \<longrightarrow>
            map_option ambiguityReason (returnedOperation (interpretModelChange c M))
              = Some (if truthy (js_get (details c) ''newTargetClassName'')
                         \<and> findClassByName (loader M) (js_get (details c) ''newTargetClassName'') = None
                      then JStr (''Target class ''
                                 @ js_toString (js_get (details c) ''newTargetClassName'')
                                 @ '' does not exist'')
                      else if \<not> someNamed refs (js_get (details c) ''name'')
                      then JStr (''Reference '' @ js_toString (js_get (details c) ''name'')
                                 @ '' does not exist in class ''
                                 @ js_toString (js_get (details c) ''className''))
                      else if truthy (js_get (details c) ''newName'')
                              \<and> someNamed refs (js_get (details c) ''newName'')
                      then JStr (''Reference '' @ js_toString (js_get (details c) ''newName'')
                                 @ '' already exists in class ''
                                 @ js_toString (js_get (details c) ''className''))
                      else JNull))"
proof (intro conjI impI)
  assume "\<not> truthy (js_get (details c) ''className'')"
  then have "\<exists>m. createModifyReferenceOperation (loader M) (details c) = Inr m
               \<and> js_get m ''ambiguous'' = JBool True
               \<and> js_get m ''ambiguityReason'' = JStr ''Class name is required''"
    by (simp add: createModifyReferenceOperation_def Let_def markAmbiguous_flag)
  then obtain m where "createModifyReferenceOperation (loader M) (details c) = Inr m"
    and "js_get m ''ambiguous'' = JBool True"
    and "js_get m ''ambiguityReason'' = JStr ''Class name is required''" by blast
  with interpret_modify_reference [OF assms, of M m]
  show "map_option ambiguityReason (returnedOperation (interpretModelChange c M))
          = Some (JStr ''Class name is required'')"
    by simp
next
  assume "truthy (js_get (details c) ''className'') \<and> \<not> truthy (js_get (details c) ''name'')"
  then have "\<exists>m. createModifyReferenceOperation (loader M) (details c) = Inr m
               \<and> js_get m ''ambiguous'' = JBool True
               \<and> js_get m ''ambiguityReason'' = JStr ''Reference name is required''"
    by (simp add: createModifyReferenceOperation_def Let_def markAmbiguous_flag)
  then obtain m where "createModifyReferenceOperation (loader M) (details c) = Inr m"
    and "js_get m ''ambiguous'' = JBool True"
    and "js_get m ''ambiguityReason'' = JStr ''Reference name is required''" by blast
  with interpret_modify_reference [OF assms, of M m]
  show "map_option ambiguityReason (returnedOperation (interpretModelChange c M))
          = Some (JStr ''Reference name is required'')"
    by simp
next
  assume "truthy (js_get (details c) ''className'') \<and> truthy (js_get (details c) ''name'')
            \<and> findClassByName (loader M) (js_get (details c) ''className'') = None"
  then have "\<exists>m. createModifyReferenceOperation (loader M) (details c) = Inr m
               \<and> js_get m ''ambiguous'' = JBool True
               \<and> js_get m ''ambiguityReason''
                   = JStr (''Class '' @ js_toString (js_get (details c) ''className'')
                           @ '' does not exist'')"
    by (simp add: createModifyReferenceOperation_def Let_def markAmbiguous_flag)
  then obtain m where "createModifyReferenceOperation (loader M) (details c) = Inr m"
    and "js_get m ''ambiguous'' = JBool True"
    and "js_get m ''ambiguityReason''
           = JStr (''Class '' @ js_toString (js_get (details c) ''className'')
                   @ '' does not exist'')" by blast
  with interpret_modify_reference [OF assms, of M m]
  show "map_option ambiguityReason (returnedOperation (interpretModelChange c M))
              = Some (JStr (''Class '' @ js_toString (js_get (details c) ''className'')
                            @ '' does not exist''))"
    by simp
next
  assume h: "truthy (js_get (details c) ''className'') \<and> truthy (js_get (details c) ''name'')
            \<and> findClassByName (loader M) (js_get (details c) ''className'') = Some k
            \<and> getClassReferences (loader M) k = Inr refs"
  have lit: "js_get
              [''action'' \<mapsto> JStr ''modifyReference'',
               ''className'' \<mapsto> js_get (details c) ''className'',
               ''referenceName'' \<mapsto> js_get (details c) ''name'',
               ''newName'' \<mapsto> js_get (details c) ''newName'',
               ''newTargetClassName'' \<mapsto> js_get (details c) ''newTargetClassName'',
               ''newContainment'' \<mapsto> js_get (details c) ''newContainment'',
               ''newLowerBound'' \<mapsto> js_get (details c) ''newLowerBound'',
               ''newUpperBound'' \<mapsto> js_get (details c) ''newUpperBound'',
               ''ambiguous'' \<mapsto> JBool False,
               ''ambiguityReason'' \<mapsto> JNull] ''ambiguous'' = JBool False"
    by (simp add: js_get_def)
  obtain m where m: "createModifyReferenceOperation (loader M) (details c) = Inr m"
    using h by (cases "truthy (js_get (details c) ''newTargetClassName'')
                         \<and> findClassByName (loader M) (js_get (details c) ''newTargetClassName'') = None")
       (simp_all add: createModifyReferenceOperation_def Let_def)
  have "(if truthy (js_get m ''ambiguous'') then js_get m ''ambiguityReason'' else JNull)
        = (if truthy (js_get (details c) ''newTargetClassName'')
                         \<and> findClassByName (loader M) (js_get (details c) ''newTargetClassName'') = None
                      then JStr (''Target class ''
                                 @ js_toString (js_get (details c) ''newTargetClassName'')
                                 @ '' does not exist'')
                      else if \<not> someNamed refs (js_get (details c) ''name'')
                      then JStr (''Reference '' @ js_toString (js_get (details c) ''name'')
                                 @ '' does not exist in class ''
                                 @ js_toString (js_get (details c) ''className''))
                      else if truthy (js_get (details c) ''newName'')
                              \<and> someNamed refs (js_get (details c) ''newName'')
                      then JStr (''Reference '' @ js_toString (js_get (details c) ''newName'')
                                 @ '' already exists in class ''
                                 @ js_toString (js_get (details c) ''className''))
                      else JNull)"
    using m h lit
    by (auto simp add: createModifyReferenceOperation_def Let_def markAmbiguous_flag
        split: if_splits)
  with interpret_modify_reference [OF assms m]
  show "map_option ambiguityReason (returnedOperation (interpretModelChange c M))
              = Some (if truthy (js_get (details c) ''newTargetClassName'')
                         \<and> findClassByName (loader M) (js_get (details c) ''newTargetClassName'') = None
                      then JStr (''Target class ''
                                 @ js_toString (js_get (details c) ''newTargetClassName'')
                                 @ '' does not exist'')
                      else if \<not> someNamed refs (js_get (details c) ''name'')
                      then JStr (''Reference '' @ js_toString (js_get (details c) ''name'')
                                 @ '' does not exist in class ''
                                 @ js_toString (js_get (details c) ''className''))
                      else if truthy (js_get (details c) ''newName'')
                              \<and> someNamed refs (js_get (details c) ''newName'')
                      then JStr (''Reference '' @ js_toString (js_get (details c) ''newName'')
                                 @ '' already exists in class ''
                                 @ js_toString (js_get (details c) ''className''))
                      else JNull)"
    by simp
qed


lemma renameMissing_facts:
  "type renameMissing = JStr ''modify''" "element renameMissing = JStr ''reference''"
  "truthy (js_get (details renameMissing) ''className'')"
  "truthy (js_get (details renameMissing) ''name'')"
  "\<not> truthy (js_get (details renameMissing) ''newTargetClassName'')"
  "findClassByName (loader sampleManager) (js_get (details renameMissing) ''className'') = Some 0"
  "getClassReferences (loader sampleManager) 0 = Inr personReferences"
  "\<not> someNamed personReferences (js_get (details renameMissing) ''name'')"
  "js_toString (js_get (details renameMissing) ''name'') = ''nosuch''"
  "js_toString (js_get (details renameMissing) ''className'') = ''Person''"
  by (simp_all add: renameMissing_def personReferences_def sample_defs query_defs js_get_def)

theorem modify_reference_reason_witness:
  "truthy (js_get (details renameMissing) ''className'')
   \<and> truthy (js_get (details renameMissing) ''name'')
   \<and> findClassByName (loader sampleManager) (js_get (details renameMissing) ''className'') = Some 0
   \<and> getClassReferences (loader sampleManager) 0 = Inr personReferences
   \<and> map_option ambiguityReason (returnedOperation (interpretModelChange renameMissing sampleManager))
       = Some (JStr ''Reference nosuch does not exist in class Person'')"
  using modify_reference_reason
          [OF renameMissing_facts(1) renameMissing_facts(2), of sampleManager 0 personReferences]
        renameMissing_facts
  by simp

subsection \<open>Failure details\<close>

text \<open>Every exception an apply procedure raises carries a message.\<close>

lemma get_on_raw_message: "message (get_on_raw expr v) \<noteq> []"
  by (simp add: get_on_raw_def)

lemma createClass_message: "createClass L n = (Some e, L') \<Longrightarrow> message e \<noteq> []"
  by (auto simp add: createClass_def split: option.splits if_splits)

lemma addAttribute_message: "addAttribute L a b c d f = (Some e, L') \<Longrightarrow> message e \<noteq> []"
  by (auto simp add: addAttribute_def Let_def get_on_raw_message
      split: option.splits if_splits sum.splits jsval.splits)

lemma addReference_message: "addReference L a b c d f g = (Some e, L') \<Longrightarrow> message e \<noteq> []"
  by (auto simp add: addReference_def Let_def get_on_raw_message
      split: option.splits if_splits sum.splits jsval.splits)

lemma addSuperTypes_message: "addSuperTypes L c ns = (Some e, L') \<Longrightarrow> message e \<noteq> []"
  by (induction ns arbitrary: L) (auto split: option.splits)

lemma applyRemoveClass_message: "applyRemoveClass L m = (Some e, L') \<Longrightarrow> message e \<noteq> []"
  by (auto simp add: applyRemoveClass_def classNotFound_def split: option.splits)

lemma applyRemoveAttribute_message: "applyRemoveAttribute L m = (Some e, L') \<Longrightarrow> message e \<noteq> []"
  by (auto simp add: applyRemoveAttribute_def classNotFound_def split: option.splits)

lemma applyRemoveReference_message: "applyRemoveReference L m = (Some e, L') \<Longrightarrow> message e \<noteq> []"
  by (auto simp add: applyRemoveReference_def classNotFound_def split: option.splits)

lemma applyModifyClass_message: "applyModifyClass L m = (Some e, L') \<Longrightarrow> message e \<noteq> []"
  by (auto simp add: applyModifyClass_def classNotFound_def Let_def
      split: option.splits if_splits jsval.splits dest: addSuperTypes_message)

lemma applyModifyAttribute_message: "applyModifyAttribute L m = (Some e, L') \<Longrightarrow> message e \<noteq> []"
  by (auto simp add: applyModifyAttribute_def classNotFound_def Let_def
      split: option.splits if_splits sum.splits)

lemma applyModifyReference_message: "applyModifyReference L m = (Some e, L') \<Longrightarrow> message e \<noteq> []"
  by (auto simp add: applyModifyReference_def classNotFound_def Let_def
      split: option.splits if_splits sum.splits)

lemma applyOperation_message:
  assumes "applyOperation L operation = (Some e, L')"
  shows "message e \<noteq> []"
proof (cases "metamodelOperation operation")
  case None
  with assms show ?thesis by (auto simp add: applyOperation_def)
next
  case (Some m)
  with assms show ?thesis
    unfolding applyOperation_def Let_def
    by (auto simp add: applyAddClass_def applyAddAttribute_def applyAddReference_def
        split: if_splits
        dest: createClass_message addAttribute_message addReference_message
          applyRemoveClass_message applyRemoveAttribute_message applyRemoveReference_message
          applyModifyClass_message applyModifyAttribute_message applyModifyReference_message)
qed

subsection \<open>A batch with one failure\<close>

lemma applyOne_ok:
  assumes "applyOperation (loader M) (heap M r) = (None, L')"
  shows "applyOne r (result, M) =
           (result\<lparr>appliedChanges := appliedChanges result @ [r]\<rparr>,
            M\<lparr>loader := L', heap := (heap M)(r := (heap M r)\<lparr>status := ''applied''\<rparr>)\<rparr>)"
  using assms by (simp add: applyOne_def)

lemma applyOne_failed:
  assumes "applyOperation (loader M) (heap M r) = (Some e, L')"
  shows "applyOne r (result, M) =
           (result\<lparr>failedChanges := failedChanges result @ [r],
                   errors := errors result @ [''Failed to apply operation: '' @ message e],
                   success := False\<rparr>,
            M\<lparr>loader := L',
              heap := (heap M)(r := (heap M r)\<lparr>status := ''failed'', error := Some (message e)\<rparr>)\<rparr>)"
  using assms by (simp add: applyOne_def)

text \<open>
  Claim C3. When \<open>applyPendingChanges\<close> runs with an empty ambiguity set and the pending
  queue holds one operation \<open>v\<close> that applies and one operation \<open>w\<close> whose application
  fails, in either order, the result lists \<open>v\<close> as applied and \<open>w\<close> as failed, has
  \<open>success = false\<close> and exactly one error; \<open>v\<close> has status \<open>applied\<close>, \<open>w\<close> has status
  \<open>failed\<close> and a failure detail that is not empty. The failure of \<open>w\<close> does not keep
  \<open>v\<close> from being applied.
\<close>

theorem one_failure_does_not_stop_the_batch:
  assumes "ambiguities M = []" and "v \<noteq> w"
    and "pendingChanges M = [v, w]
           \<and> applyOperation (loader M) (heap M v) = (None, L1)
           \<and> applyOperation L1 (heap M w) = (Some e, L2)
         \<or> pendingChanges M = [w, v]
           \<and> applyOperation (loader M) (heap M w) = (Some e, L1)
           \<and> applyOperation L1 (heap M v) = (None, L2)"
  shows "fst (applyPendingChanges M) =
           \<lparr>success = False, appliedChanges = [v], failedChanges = [w],
            errors = [''Failed to apply operation: '' @ message e]\<rparr>
       \<and> status (heap (snd (applyPendingChanges M)) v) = ''applied''
       \<and> status (heap (snd (applyPendingChanges M)) w) = ''failed''
       \<and> error (heap (snd (applyPendingChanges M)) w) = Some (message e)
       \<and> message e \<noteq> []
       \<and> loader (snd (applyPendingChanges M)) = L2
       \<and> pendingChanges (snd (applyPendingChanges M)) = []"
  using assms(3)
proof
  assume h: "pendingChanges M = [v, w]
           \<and> applyOperation (loader M) (heap M v) = (None, L1)
           \<and> applyOperation L1 (heap M w) = (Some e, L2)"
  then have m: "message e \<noteq> []" using applyOperation_message by blast
  show ?thesis
    using h assms(1,2) m
    by (simp add: applyPendingChanges_def applyOne_def)
next
  assume h: "pendingChanges M = [w, v]
           \<and> applyOperation (loader M) (heap M w) = (Some e, L1)
           \<and> applyOperation L1 (heap M v) = (None, L2)"
  then have m: "message e \<noteq> []" using applyOperation_message by blast
  show ?thesis
    using h assms(1,2) m
    by (simp add: applyPendingChanges_def applyOne_def)
qed

lemma batchManager_facts:
  "ambiguities batchManager = []" "pendingChanges batchManager = [0, 1]"
  "loader batchManager = sampleLoader"
  "metamodelOperation (heap batchManager 0) =
     Some [''action'' \<mapsto> JStr ''addClass'', ''className'' \<mapsto> JStr ''Customer'',
           ''superTypes'' \<mapsto> JArr [], ''abstract'' \<mapsto> JBool False,
           ''interface'' \<mapsto> JBool False, ''ambiguous'' \<mapsto> JBool False,
           ''ambiguityReason'' \<mapsto> JNull]"
  "metamodelOperation (heap batchManager (Suc 0)) =
     Some [''action'' \<mapsto> JStr ''addAttribute'', ''className'' \<mapsto> JStr ''Person'',
           ''attributeName'' \<mapsto> JStr ''salary'', ''attributeType'' \<mapsto> JStr ''Money'',
           ''lowerBound'' \<mapsto> JNum 0, ''upperBound'' \<mapsto> JNum 1,
           ''ambiguous'' \<mapsto> JBool False, ''ambiguityReason'' \<mapsto> JNull]"
  by (simp_all add: batchManager_def pendingManager_def addSalary_def addCustomer_def
      sample_defs interpret_defs builder_defs query_defs observer_defs)

lemma batch_first:
  "fst (applyOperation (loader batchManager) (heap batchManager 0)) = None"
  by (simp add: batchManager_facts applyOperation_def applyAddClass_def createClass_def
      js_get_def sampleLoader_def findClassByName_def)

lemma batch_second:
  "fst (applyOperation (snd (applyOperation (loader batchManager) (heap batchManager 0)))
          (heap batchManager 1)) = Some (Error ''DataType Money not found'')"
  by (simp add: batchManager_facts applyOperation_def applyAddClass_def createClass_def
      applyAddAttribute_def addAttribute_def default_param_def
      js_get_def sampleLoader_def findClassByName_def sampleEcore_def)

theorem one_failure_does_not_stop_the_batch_witness:
  "ambiguities batchManager = [] \<and> pendingChanges batchManager = [0, 1]
   \<and> fst (applyPendingChanges batchManager) =
       \<lparr>success = False, appliedChanges = [0], failedChanges = [1],
        errors = [''Failed to apply operation: DataType Money not found'']\<rparr>
   \<and> status (heap (snd (applyPendingChanges batchManager)) 0) = ''applied''
   \<and> status (heap (snd (applyPendingChanges batchManager)) 1) = ''failed''
   \<and> error (heap (snd (applyPendingChanges batchManager)) 1) = Some ''DataType Money not found''"
proof -
  have a: "ambiguities batchManager = []" by (simp add: batchManager_facts)
  have b: "(0::nat) \<noteq> 1" by simp
  have c: "pendingChanges batchManager = [0, 1]
           \<and> applyOperation (loader batchManager) (heap batchManager 0)
               = (None, snd (applyOperation (loader batchManager) (heap batchManager 0)))
           \<and> applyOperation (snd (applyOperation (loader batchManager) (heap batchManager 0)))
               (heap batchManager 1)
               = (Some (Error ''DataType Money not found''),
                  snd (applyOperation (snd (applyOperation (loader batchManager) (heap batchManager 0)))
                         (heap batchManager 1)))
         \<or> pendingChanges batchManager = [1, 0]
           \<and> applyOperation (loader batchManager) (heap batchManager 1)
               = (Some (Error ''DataType Money not found''),
                  snd (applyOperation (loader batchManager) (heap batchManager 0)))
           \<and> applyOperation (snd (applyOperation (loader batchManager) (heap batchManager 0)))
               (heap batchManager 0)
               = (None, snd (applyOperation (snd (applyOperation (loader batchManager) (heap batchManager 0)))
                         (heap batchManager 1)))"
    using batch_first batch_second
    by (simp add: batchManager_facts(2) prod_eq_iff)
  show ?thesis
    using one_failure_does_not_stop_the_batch [OF a b c] a
    by (simp add: batchManager_facts(2))
qed

subsection \<open>The store under \<open>addFeature\<close>\<close>

lemma addFeature_simps:
  "name (objects (addFeature L k f) i) = name (objects L i)"
  "rootPackage (addFeature L k f) = rootPackage L"
  "Ecore (addFeature L k f) = Ecore L"
  "eStructuralFeatures (objects (addFeature L k f) i) =
     (if i = k then eStructuralFeatures (objects L k) @ [f] else eStructuralFeatures (objects L i))"
  by (simp_all add: addFeature_def)

lemma findIn_names:
  assumes "\<And>i. EClassifier i \<in> set cs \<Longrightarrow> name (objects L' i) = name (objects L i)"
  shows "findIn L' cs v found = findIn L cs v found"
  using assms by (induction L cs v found rule: findIn.induct) auto

lemma findIn_append:
  "findIn L (cs @ ds) v found = findIn L ds v (findIn L cs v found)"
  by (induction L cs v found rule: findIn.induct) auto

lemma findIn_found:
  "findIn L cs v found = Some i \<Longrightarrow>
     found = Some i \<or> (name (objects L i) = v \<and> EClassifier i \<in> set cs)"
  by (induction L cs v found rule: findIn.induct) (auto split: if_splits)

lemma findIn_name: "findIn L cs v None = Some i \<Longrightarrow> name (objects L i) = v"
  using findIn_found [of L cs v None i] by simp

lemma findIn_mem: "findIn L cs v None = Some i \<Longrightarrow> EClassifier i \<in> set cs"
  using findIn_found [of L cs v None i] by simp

lemma findClassByName_addFeature:
  "findClassByName (addFeature L k f) v = findClassByName L v"
proof (cases "rootPackage L")
  case None
  then show ?thesis by (simp add: findClassByName_def addFeature_simps)
next
  case (Some cs)
  have "findIn (addFeature L k f) cs v None = findIn L cs v None"
    by (rule findIn_names) (simp add: addFeature_simps)
  with Some show ?thesis by (simp add: findClassByName_def addFeature_simps)
qed

lemma findClassByName_name: "findClassByName L v = Some i \<Longrightarrow> name (objects L i) = v"
  by (auto simp add: findClassByName_def findIn_name split: option.splits)

lemma eType_name_addFeature: "eType_name (addFeature L k f) t = eType_name L t"
  by (cases t) (simp_all add: addFeature_simps)

lemma collectAttributes_addFeature:
  "collectAttributes (addFeature L k f) fs = collectAttributes L fs"
  by (induction fs) (simp_all add: eType_name_addFeature split: sum.splits)

lemma collectReferences_addFeature:
  "collectReferences (addFeature L k f) fs = collectReferences L fs"
  by (induction fs) (simp_all add: eType_name_addFeature split: sum.splits)

lemma collectAttributes_append:
  "collectAttributes L (fs @ [f]) =
     (case collectAttributes L fs of
        Inl e \<Rightarrow> Inl e
      | Inr attributes \<Rightarrow>
          if kind f = EAttribute then
            (case eType_name L (eType f) of
               Inl e \<Rightarrow> Inl e
             | Inr t \<Rightarrow>
                 Inr (attributes @ [attributeInfo f t]))
          else Inr attributes)"
  by (induction fs) (simp_all split: sum.splits)

lemma collectReferences_append:
  "collectReferences L (fs @ [f]) =
     (case collectReferences L fs of
        Inl e \<Rightarrow> Inl e
      | Inr references \<Rightarrow>
          if kind f = EReference then
            (case eType_name L (eType f) of
               Inl e \<Rightarrow> Inl e
             | Inr t \<Rightarrow>
                 Inr (references @ [referenceInfo f t]))
          else Inr references)"
  by (induction fs) (simp_all split: sum.splits)

lemma getClassAttributes_addFeature:
  "getClassAttributes (addFeature L k f) k =
     (case getClassAttributes L k of
        Inl e \<Rightarrow> Inl e
      | Inr attributes \<Rightarrow>
          if kind f = EAttribute then
            (case eType_name L (eType f) of
               Inl e \<Rightarrow> Inl e
             | Inr t \<Rightarrow>
                 Inr (attributes @ [attributeInfo f t]))
          else Inr attributes)"
  by (simp add: getClassAttributes_def addFeature_simps collectAttributes_addFeature
      collectAttributes_append eType_name_addFeature split: sum.splits)

lemma getClassReferences_addFeature:
  "getClassReferences (addFeature L k f) k =
     (case getClassReferences L k of
        Inl e \<Rightarrow> Inl e
      | Inr references \<Rightarrow>
          if kind f = EReference then
            (case eType_name L (eType f) of
               Inl e \<Rightarrow> Inl e
             | Inr t \<Rightarrow>
                 Inr (references @ [referenceInfo f t]))
          else Inr references)"
  by (simp add: getClassReferences_def addFeature_simps collectReferences_addFeature
      collectReferences_append eType_name_addFeature split: sum.splits)

lemma addAttribute_found:
  assumes "findClassByName L (JStr C) = Some k" and "Ecore L t = Some ty"
  shows "addAttribute L (JStr C) an (JStr t) lb ub =
           (None, addFeature L k
                    \<lparr>name = an, kind = EAttribute, eType = ty, containment = JUndefined,
                     lowerBound = default_param lb (JNum 0),
                     upperBound = default_param ub (JNum 1)\<rparr>)"
  using assms by (simp add: addAttribute_def)

lemma addReference_found:
  assumes "findClassByName L (JStr C) = Some k" and "findClassByName L (JStr T) = Some j"
  shows "addReference L (JStr C) (JStr T) rn co lb ub =
           (None, addFeature L k
                    \<lparr>name = rn, kind = EReference, eType = ClassObj j,
                     containment = default_param co (JBool False),
                     lowerBound = default_param lb (JNum 0),
                     upperBound = default_param ub (JNum 1)\<rparr>)"
  using assms by (simp add: addReference_def)

subsection \<open>Builders that find nothing to object to\<close>

lemma addAttribute_builder_clear:
  assumes "truthy (js_get d ''className'')" and "truthy (js_get d ''name'')"
    and "findClassByName L (js_get d ''className'') = Some k"
    and "getClassAttributes L k = Inr attrs"
    and "\<not> someNamed attrs (js_get d ''name'')"
  shows "\<exists>m. createAddAttributeOperation L d = Inr m
           \<and> js_get m ''ambiguous'' = JBool False
           \<and> js_get m ''action'' = JStr ''addAttribute''
           \<and> js_get m ''className'' = js_get d ''className''
           \<and> js_get m ''attributeName'' = js_get d ''name''
           \<and> js_get m ''attributeType'' = js_or (js_get d ''type'') (JStr ''EString'')
           \<and> js_get m ''lowerBound'' = js_or (js_get d ''lowerBound'') (JNum 0)
           \<and> js_get m ''upperBound'' = js_or (js_get d ''upperBound'') (JNum 1)"
  using assms by (simp add: createAddAttributeOperation_def Let_def) (simp add: js_get_def)

lemma addAttribute_builder_exists:
  assumes "truthy (js_get d ''className'')" and "truthy (js_get d ''name'')"
    and "findClassByName L (js_get d ''className'') = Some k"
    and "getClassAttributes L k = Inr attrs"
    and "someNamed attrs (js_get d ''name'')"
  shows "\<exists>m. createAddAttributeOperation L d = Inr m
           \<and> js_get m ''ambiguous'' = JBool True
           \<and> js_get m ''ambiguityReason'' =
               JStr (''Attribute '' @ js_toString (js_get d ''name'')
                     @ '' already exists in class '' @ js_toString (js_get d ''className''))"
  using assms by (simp add: createAddAttributeOperation_def Let_def markAmbiguous_flag)


subsection \<open>Filing\<close>

lemma interpret_files_pending:
  assumes "buildOperation (loader M) (js_toString (type c) @ ''_'' @ js_toString (element c))
             (details c) = Some (Inr m)"
    and "js_get m ''ambiguous'' = JBool False"
  shows "interpretModelChange c M =
           Inr (nextRef M,
                M\<lparr>heap := (heap M)
                       (nextRef M :=
                          \<lparr>type = type c, element = element c, details = details c,
                           status = ''pending'', ambiguous = False, ambiguityReason = JNull,
                           metamodelOperation = Some m, error = None\<rparr>),
                  nextRef := Suc (nextRef M),
                  pendingChanges := pendingChanges M @ [nextRef M],
                  evolutionOperations := evolutionOperations M @ [nextRef M]\<rparr>)"
  using assms by (simp add: interpretModelChange_def fileOperation_def Let_def)

lemma interpret_files_ambiguous:
  assumes "buildOperation (loader M) (js_toString (type c) @ ''_'' @ js_toString (element c))
             (details c) = Some (Inr m)"
    and "js_get m ''ambiguous'' = JBool True"
  shows "interpretModelChange c M =
           Inr (nextRef M,
                M\<lparr>heap := (heap M)
                       (nextRef M :=
                          \<lparr>type = type c, element = element c, details = details c,
                           status = ''pending'', ambiguous = True,
                           ambiguityReason = js_get m ''ambiguityReason'',
                           metamodelOperation = Some m, error = None\<rparr>),
                  nextRef := Suc (nextRef M),
                  ambiguities := ambiguities M @ [nextRef M],
                  evolutionOperations := evolutionOperations M @ [nextRef M]\<rparr>)"
  using assms by (simp add: interpretModelChange_def fileOperation_def Let_def)

lemma applyOperation_addAttribute:
  assumes "metamodelOperation operation = Some m" and "js_get m ''action'' = JStr ''addAttribute''"
  shows "applyOperation L operation =
           addAttribute L (js_get m ''className'') (js_get m ''attributeName'')
             (js_get m ''attributeType'') (js_get m ''lowerBound'') (js_get m ''upperBound'')"
  using assms by (simp add: applyOperation_def applyAddAttribute_def)

lemma default_param_js_or [simp]: "d \<noteq> JUndefined \<Longrightarrow> default_param (js_or a d) e = js_or a d"
  by (cases a) (auto simp add: js_or_def default_param_def)

text \<open>
  Claim C8. The ambiguity checks of the interpreter read the store, not the ledger. For
  every class C that lacks an attribute A, interpreting ``add attribute A to C'' gives a
  pending operation, whatever the ledger holds; so interpreting the same change again
  before the first is applied gives a pending operation too. Once the first has been
  applied to the store, interpreting it again gives an ambiguous operation
  (``Attribute A already exists in class C''), again whatever the ledger holds.
\<close>

theorem add_attribute_ambiguity_follows_the_store:
  assumes c: "type c = JStr ''add''" "element c = JStr ''attribute''"
    and cn: "truthy (js_get (details c) ''className'')"
    and an: "truthy (js_get (details c) ''name'')"
    and k: "findClassByName (loader M) (js_get (details c) ''className'') = Some k"
    and attrs: "getClassAttributes (loader M) k = Inr attrs"
      "\<not> someNamed attrs (js_get (details c) ''name'')"
  shows "(\<forall>M'. loader M' = loader M \<longrightarrow>
            map_option ambiguous (returnedOperation (interpretModelChange c M')) = Some False
          \<and> map_option status (returnedOperation (interpretModelChange c M')) = Some ''pending''
          \<and> inPendingChanges (interpretModelChange c M')
          \<and> loader (managerAfter (interpretModelChange c M') M') = loader M)
       \<and> map_option ambiguous
           (returnedOperation
              (interpretModelChange c (managerAfter (interpretModelChange c M) M))) = Some False
       \<and> inPendingChanges (interpretModelChange c (managerAfter (interpretModelChange c M) M))
       \<and> (js_get (details c) ''className'' = JStr C
          \<and> js_or (js_get (details c) ''type'') (JStr ''EString'') = JStr t
          \<and> Ecore (loader M) t = Some (DataType n)
          \<and> ambiguities M = [] \<and> pendingChanges M = [] \<longrightarrow>
            fst (applyPendingChanges (managerAfter (interpretModelChange c M) M))
              = \<lparr>success = True, appliedChanges = [nextRef M], failedChanges = [], errors = []\<rparr>
          \<and> (\<forall>M'. loader M'
                      = loader (snd (applyPendingChanges
                                       (managerAfter (interpretModelChange c M) M))) \<longrightarrow>
                 map_option ambiguous (returnedOperation (interpretModelChange c M')) = Some True
               \<and> map_option ambiguityReason (returnedOperation (interpretModelChange c M'))
                   = Some (JStr (''Attribute '' @ js_toString (js_get (details c) ''name'')
                                 @ '' already exists in class '' @ C))
               \<and> inAmbiguities (interpretModelChange c M')))"
proof -
  let ?L = "loader M" and ?d = "details c" and ?r = "nextRef M"
  from addAttribute_builder_clear [OF cn an k attrs]
  obtain m where m: "createAddAttributeOperation ?L ?d = Inr m"
    and flag: "js_get m ''ambiguous'' = JBool False"
    and act: "js_get m ''action'' = JStr ''addAttribute''"
    and f1: "js_get m ''className'' = js_get ?d ''className''"
    and f2: "js_get m ''attributeName'' = js_get ?d ''name''"
    and f3: "js_get m ''attributeType'' = js_or (js_get ?d ''type'') (JStr ''EString'')"
    and f4: "js_get m ''lowerBound'' = js_or (js_get ?d ''lowerBound'') (JNum 0)"
    and f5: "js_get m ''upperBound'' = js_or (js_get ?d ''upperBound'') (JNum 1)"
    by auto
  define op where "op = \<lparr>type = type c, element = element c, details = details c,
                           status = ''pending'', ambiguous = False, ambiguityReason = JNull,
                           metamodelOperation = Some m, error = None\<rparr>"
  have b: "\<And>M'. loader M' = ?L \<Longrightarrow>
             buildOperation (loader M') (js_toString (type c) @ ''_'' @ js_toString (element c))
               (details c) = Some (Inr m)"
    using c by (simp add: buildOperation_def m)
  \<comment> \<open>whatever the ledger holds, the change is pending on this store\<close>
  have any: "\<And>M'. loader M' = ?L \<Longrightarrow>
               interpretModelChange c M' =
                 Inr (nextRef M',
                      M'\<lparr>heap := (heap M')(nextRef M' := op), nextRef := Suc (nextRef M'),
                         pendingChanges := pendingChanges M' @ [nextRef M'],
                         evolutionOperations := evolutionOperations M' @ [nextRef M']\<rparr>)"
    using interpret_files_pending [OF b flag] by (simp add: op_def)
  have partA: "\<forall>M'. loader M' = loader M \<longrightarrow>
            map_option ambiguous (returnedOperation (interpretModelChange c M')) = Some False
          \<and> map_option status (returnedOperation (interpretModelChange c M')) = Some ''pending''
          \<and> inPendingChanges (interpretModelChange c M')
          \<and> loader (managerAfter (interpretModelChange c M') M') = loader M"
    by (simp add: any returnedOperation_def inPendingChanges_def managerAfter_def op_def)
  define M1 where "M1 = M\<lparr>heap := (heap M)(?r := op), nextRef := Suc ?r,
                           pendingChanges := pendingChanges M @ [?r],
                           evolutionOperations := evolutionOperations M @ [?r]\<rparr>"
  have i1: "interpretModelChange c M = Inr (?r, M1)"
    using any [of M] by (simp add: M1_def)
  have M1: "managerAfter (interpretModelChange c M) M = M1"
    by (simp add: i1 managerAfter_def)
  have lM1: "loader M1 = ?L" by (simp add: M1_def)
  have partB: "map_option ambiguous (returnedOperation (interpretModelChange c M1)) = Some False
             \<and> inPendingChanges (interpretModelChange c M1)"
    using partA lM1 by blast
  \<comment> \<open>once it has been applied, it is ambiguous whatever the ledger holds\<close>
  have partC: "fst (applyPendingChanges M1)
              = \<lparr>success = True, appliedChanges = [nextRef M], failedChanges = [], errors = []\<rparr>
          \<and> (\<forall>M'. loader M' = loader (snd (applyPendingChanges M1)) \<longrightarrow>
                 map_option ambiguous (returnedOperation (interpretModelChange c M')) = Some True
               \<and> map_option ambiguityReason (returnedOperation (interpretModelChange c M'))
                   = Some (JStr (''Attribute '' @ js_toString (js_get (details c) ''name'')
                                 @ '' already exists in class '' @ C))
               \<and> inAmbiguities (interpretModelChange c M'))"
    if h: "js_get (details c) ''className'' = JStr C
          \<and> js_or (js_get (details c) ''type'') (JStr ''EString'') = JStr t
          \<and> Ecore (loader M) t = Some (DataType n)
          \<and> ambiguities M = [] \<and> pendingChanges M = []"
  proof -
    from h have cs: "js_get ?d ''className'' = JStr C"
      and ty: "js_or (js_get ?d ''type'') (JStr ''EString'') = JStr t"
      and ec: "Ecore ?L t = Some (DataType n)"
      and q: "ambiguities M = []" "pendingChanges M = []"
      by simp_all
    have kC: "findClassByName ?L (JStr C) = Some k" using k cs by simp
    define f where "f = \<lparr>name = js_get ?d ''name'', kind = EAttribute, eType = DataType n,
                         containment = JUndefined,
                         lowerBound = js_or (js_get ?d ''lowerBound'') (JNum 0),
                         upperBound = js_or (js_get ?d ''upperBound'') (JNum 1)\<rparr>"
    have ap: "applyOperation ?L op = (None, addFeature ?L k f)"
      using applyOperation_addAttribute [of op m ?L] addAttribute_found [OF kC ec]
      by (simp add: op_def act f1 f2 f3 f4 f5 f_def cs ty)
    define M2 where "M2 = M1\<lparr>loader := addFeature ?L k f,
                              heap := (heap M1)(?r := op\<lparr>status := ''applied''\<rparr>),
                              pendingChanges := []\<rparr>"
    have a1: "applyPendingChanges M1 =
                (\<lparr>success = True, appliedChanges = [?r], failedChanges = [], errors = []\<rparr>, M2)"
      using ap q by (simp add: applyPendingChanges_def applyOne_def M1_def M2_def)
    have lM2: "loader M2 = addFeature ?L k f" by (simp add: M2_def M1_def)
    have k2: "findClassByName (loader M2) (js_get ?d ''className'') = Some k"
      using k by (simp add: lM2 findClassByName_addFeature)
    have at2: "getClassAttributes (loader M2) k = Inr (attrs @ [attributeInfo f n])"
      using attrs by (simp add: lM2 getClassAttributes_addFeature f_def)
    have ex2: "someNamed (attrs @ [attributeInfo f n]) (js_get ?d ''name'')"
      by (simp add: someNamed_def attributeInfo_def f_def js_get_def)
    from addAttribute_builder_exists [OF cn an k2 at2 ex2]
    obtain m' where m': "createAddAttributeOperation (loader M2) ?d = Inr m'"
      and flag': "js_get m' ''ambiguous'' = JBool True"
      and reason': "js_get m' ''ambiguityReason'' =
                 JStr (''Attribute '' @ js_toString (js_get ?d ''name'')
                       @ '' already exists in class '' @ C)"
      using cs by auto
    have b': "\<And>M'. loader M' = loader M2 \<Longrightarrow>
               buildOperation (loader M') (js_toString (type c) @ ''_'' @ js_toString (element c))
                 (details c) = Some (Inr m')"
      using c by (simp add: buildOperation_def m')
    have i3: "\<And>M'. loader M' = loader M2 \<Longrightarrow>
                interpretModelChange c M' =
                  Inr (nextRef M',
                       M'\<lparr>heap := (heap M')
                              (nextRef M' :=
                                 \<lparr>type = type c, element = element c, details = details c,
                                  status = ''pending'', ambiguous = True,
                                  ambiguityReason = js_get m' ''ambiguityReason'',
                                  metamodelOperation = Some m', error = None\<rparr>),
                          nextRef := Suc (nextRef M'),
                          ambiguities := ambiguities M' @ [nextRef M'],
                          evolutionOperations := evolutionOperations M' @ [nextRef M']\<rparr>)"
      by (rule interpret_files_ambiguous [OF b' flag'])
    have s2: "snd (applyPendingChanges M1) = M2" by (simp add: a1)
    have c5: "fst (applyPendingChanges M1)
                = \<lparr>success = True, appliedChanges = [nextRef M], failedChanges = [], errors = []\<rparr>"
      by (simp add: a1)
    have c6: "\<forall>M'. loader M' = loader M2 \<longrightarrow>
                 map_option ambiguous (returnedOperation (interpretModelChange c M')) = Some True
               \<and> map_option ambiguityReason (returnedOperation (interpretModelChange c M'))
                   = Some (JStr (''Attribute '' @ js_toString (js_get (details c) ''name'')
                                 @ '' already exists in class '' @ C))
               \<and> inAmbiguities (interpretModelChange c M')"
      by (simp add: i3 returnedOperation_def inAmbiguities_def reason')
    show ?thesis unfolding s2 using c5 c6 by blast
  qed
  show ?thesis
    unfolding M1 using partA partB partC by blast
qed

lemma addNickname_facts:
  "type addNickname = JStr ''add''" "element addNickname = JStr ''attribute''"
  "truthy (js_get (details addNickname) ''className'')"
  "truthy (js_get (details addNickname) ''name'')"
  "findClassByName (loader sampleManager) (js_get (details addNickname) ''className'') = Some 0"
  "getClassAttributes (loader sampleManager) 0 = Inr personAttributes"
  "\<not> someNamed personAttributes (js_get (details addNickname) ''name'')"
  by (simp_all add: addNickname_def personAttributes_def sample_defs query_defs js_get_def)

lemma addNickname_apply_facts:
  "js_get (details addNickname) ''className'' = JStr ''Person''
   \<and> js_or (js_get (details addNickname) ''type'') (JStr ''EString'') = JStr ''EString''
   \<and> Ecore (loader sampleManager) ''EString'' = Some (DataType (JStr ''EString''))
   \<and> ambiguities sampleManager = [] \<and> pendingChanges sampleManager = []"
  by (simp add: addNickname_def sample_defs js_get_def js_or_def)

theorem add_attribute_ambiguity_follows_the_store_witness:
  "findClassByName (loader sampleManager) (js_get (details addNickname) ''className'') = Some 0
   \<and> getClassAttributes (loader sampleManager) 0 = Inr personAttributes
   \<and> \<not> someNamed personAttributes (js_get (details addNickname) ''name'')
   \<and> ambiguities ambiguousManager \<noteq> []
   \<and> loader ambiguousManager = loader sampleManager
   \<and> map_option ambiguous (returnedOperation (interpretModelChange addNickname sampleManager))
       = Some False
   \<and> map_option ambiguous (returnedOperation (interpretModelChange addNickname ambiguousManager))
       = Some False
   \<and> inPendingChanges (interpretModelChange addNickname ambiguousManager)
   \<and> map_option ambiguous
       (returnedOperation
          (interpretModelChange addNickname
             (managerAfter (interpretModelChange addNickname sampleManager) sampleManager)))
       = Some False
   \<and> fst (applyPendingChanges
             (managerAfter (interpretModelChange addNickname sampleManager) sampleManager))
       = \<lparr>success = True, appliedChanges = [0], failedChanges = [], errors = []\<rparr>
   \<and> map_option ambiguityReason
       (returnedOperation
          (interpretModelChange addNickname
             (snd (applyPendingChanges
                     (managerAfter (interpretModelChange addNickname sampleManager) sampleManager)))))
       = Some (JStr ''Attribute nickname already exists in class Person'')"
proof -
  have l: "loader ambiguousManager = loader sampleManager"
    by (simp add: ambiguousManager_def removeEmployee_def sample_defs interpret_defs builder_defs
        query_defs observer_defs)
  have a: "ambiguities ambiguousManager \<noteq> []"
    by (simp add: ambiguousManager_ambiguities)
  have n: "nextRef sampleManager = 0" "js_toString (js_get (details addNickname) ''name'') = ''nickname''"
    by (simp_all add: sampleManager_def newManager_def addNickname_def change_def js_get_def)
  note t = add_attribute_ambiguity_follows_the_store
             [OF addNickname_facts, of "''Person''" "''EString''" "JStr ''EString''"]
  from t have t1: "map_option ambiguous (returnedOperation (interpretModelChange addNickname sampleManager))
       = Some False" by blast
  from t l have t2: "map_option ambiguous (returnedOperation (interpretModelChange addNickname ambiguousManager))
       = Some False \<and> inPendingChanges (interpretModelChange addNickname ambiguousManager)" by blast
  from t have t3: "map_option ambiguous
       (returnedOperation
          (interpretModelChange addNickname
             (managerAfter (interpretModelChange addNickname sampleManager) sampleManager)))
       = Some False" by blast
  from t addNickname_apply_facts
  have t4: "fst (applyPendingChanges
             (managerAfter (interpretModelChange addNickname sampleManager) sampleManager))
       = \<lparr>success = True, appliedChanges = [nextRef sampleManager], failedChanges = [], errors = []\<rparr>
     \<and> map_option ambiguityReason
       (returnedOperation
          (interpretModelChange addNickname
             (snd (applyPendingChanges
                     (managerAfter (interpretModelChange addNickname sampleManager) sampleManager)))))
       = Some (JStr (''Attribute '' @ js_toString (js_get (details addNickname) ''name'')
                     @ '' already exists in class '' @ ''Person''))"
    by blast
  show ?thesis
    using t1 t2 t3 t4 l a addNickname_facts(5) addNickname_facts(6) addNickname_facts(7)
    by (simp add: n)
qed

subsection \<open>More of the store and of the builders\<close>

lemma createClass_fresh:
  assumes "rootPackage L = Some cs" and "findClassByName L v = None"
  shows "createClass L v =
           (None,
            L\<lparr>rootPackage := Some (cs @ [EClassifier (nextObject L)]),
              objects := (objects L)
                (nextObject L :=
                   \<lparr>name = v, abstract = JBool False, interface = JBool False,
                    eSuperTypes = [], eStructuralFeatures = []\<rparr>),
              nextObject := Suc (nextObject L)\<rparr>)"
  using assms by (simp add: createClass_def)

lemma findClassByName_after_createClass:
  assumes "rootPackage L = Some cs" and "EClassifier (nextObject L) \<notin> set cs"
    and "L1 = L\<lparr>rootPackage := Some (cs @ [EClassifier (nextObject L)]),
                 objects := (objects L)(nextObject L := cls),
                 nextObject := Suc (nextObject L)\<rparr>"
  shows "findClassByName L1 v =
           (if name cls = v then Some (nextObject L) else findClassByName L v)"
proof -
  have "findIn L1 cs v None = findIn L cs v None"
    by (rule findIn_names) (use assms in auto)
  then show ?thesis
    using assms by (simp add: findClassByName_def findIn_append)
qed

lemma findClassByName_mem:
  "findClassByName L v = Some i \<Longrightarrow> rootPackage L = Some cs \<Longrightarrow> EClassifier i \<in> set cs"
  by (auto simp add: findClassByName_def findIn_mem)

lemma addClass_builder_clear:
  assumes "truthy (js_get d ''name'')" and "findClassByName L (js_get d ''name'') = None"
  shows "\<exists>m. createAddClassOperation L d = Inr m
           \<and> js_get m ''ambiguous'' = JBool False
           \<and> js_get m ''action'' = JStr ''addClass''
           \<and> js_get m ''className'' = js_get d ''name''"
  using assms by (simp add: createAddClassOperation_def Let_def) (simp add: js_get_def)

lemma addReference_builder_clear:
  assumes "truthy (js_get d ''sourceClassName'')" and "truthy (js_get d ''targetClassName'')"
    and "truthy (js_get d ''name'')"
    and "findClassByName L (js_get d ''sourceClassName'') = Some k"
    and "findClassByName L (js_get d ''targetClassName'') = Some j"
    and "getClassReferences L k = Inr refs"
    and "\<not> someNamed refs (js_get d ''name'')"
  shows "\<exists>m. createAddReferenceOperation L d = Inr m
           \<and> js_get m ''ambiguous'' = JBool False
           \<and> js_get m ''action'' = JStr ''addReference''
           \<and> js_get m ''sourceClassName'' = js_get d ''sourceClassName''
           \<and> js_get m ''targetClassName'' = js_get d ''targetClassName''
           \<and> js_get m ''referenceName'' = js_get d ''name''
           \<and> js_get m ''containment'' = js_or (js_get d ''containment'') (JBool False)
           \<and> js_get m ''lowerBound'' = js_or (js_get d ''lowerBound'') (JNum 0)
           \<and> js_get m ''upperBound'' = js_or (js_get d ''upperBound'') (JNum 1)"
  using assms by (simp add: createAddReferenceOperation_def Let_def) (simp add: js_get_def)

lemma applyOperation_addClass:
  assumes "metamodelOperation operation = Some m" and "js_get m ''action'' = JStr ''addClass''"
  shows "applyOperation L operation = createClass L (js_get m ''className'')"
  using assms by (simp add: applyOperation_def applyAddClass_def)

lemma applyOperation_addReference:
  assumes "metamodelOperation operation = Some m" and "js_get m ''action'' = JStr ''addReference''"
  shows "applyOperation L operation =
           addReference L (js_get m ''sourceClassName'') (js_get m ''targetClassName'')
             (js_get m ''referenceName'') (js_get m ''containment'')
             (js_get m ''lowerBound'') (js_get m ''upperBound'')"
  using assms by (simp add: applyOperation_def applyAddReference_def)

lemma js_or_num: "js_or (JNum u) (JNum d) = JNum (if u = 0 then d else u)"
  by (simp add: js_or_def)

subsection \<open>Adding a class and its features\<close>

lemma interpretAll_three:
  assumes "interpretModelChange c1 M = Inr (r1, M1)"
    and "interpretModelChange c2 M1 = Inr (r2, M2)"
    and "interpretModelChange c3 M2 = Inr (r3, M3)"
  shows "interpretAll [c1, c2, c3] M = Inr ([r1, r2, r3], M3)"
  using assms by (simp add: interpretAll_def bindE_def)

lemma applyPending_three:
  assumes "ambiguities M = []" and "pendingChanges M = [r1, r2, r3]"
    and "r1 \<noteq> r2" and "r1 \<noteq> r3" and "r2 \<noteq> r3"
    and "applyOperation (loader M) (heap M r1) = (None, L1)"
    and "applyOperation L1 (heap M r2) = (None, L2)"
    and "applyOperation L2 (heap M r3) = (None, L3)"
  shows "fst (applyPendingChanges M) =
           \<lparr>success = True, appliedChanges = [r1, r2, r3], failedChanges = [], errors = []\<rparr>
       \<and> loader (snd (applyPendingChanges M)) = L3"
  using assms by (simp add: applyPendingChanges_def applyOne_def)

lemma applyPending_one:
  assumes "ambiguities M = []" and "pendingChanges M = [r]"
    and "applyOperation (loader M) (heap M r) = (None, L1)"
  shows "applyPendingChanges M =
           (\<lparr>success = True, appliedChanges = [r], failedChanges = [], errors = []\<rparr>,
            M\<lparr>loader := L1, heap := (heap M)(r := (heap M r)\<lparr>status := ''applied''\<rparr>),
              pendingChanges := []\<rparr>)"
  using assms by (simp add: applyPendingChanges_def applyOne_def)

lemma session_round_trip:
  assumes c0: "type c0 = JStr ''add''" "element c0 = JStr ''class''"
      "js_get (details c0) ''name'' = JStr C" "C \<noteq> []"
    and c1: "type c1 = JStr ''add''" "element c1 = JStr ''attribute''"
      "js_get (details c1) ''className'' = JStr C" "truthy (js_get (details c1) ''name'')"
      "js_or (js_get (details c1) ''type'') (JStr ''EString'') = JStr t1"
      "Ecore (loader M) t1 = Some (DataType n1)"
      "js_get (details c1) ''lowerBound'' = JNum l1" "js_get (details c1) ''upperBound'' = JNum u1"
    and c2: "type c2 = JStr ''add''" "element c2 = JStr ''attribute''"
      "js_get (details c2) ''className'' = JStr C" "truthy (js_get (details c2) ''name'')"
      "js_or (js_get (details c2) ''type'') (JStr ''EString'') = JStr t2"
      "Ecore (loader M) t2 = Some (DataType n2)"
      "js_get (details c2) ''lowerBound'' = JNum l2" "js_get (details c2) ''upperBound'' = JNum u2"
    and c3: "type c3 = JStr ''add''" "element c3 = JStr ''reference''"
      "js_get (details c3) ''sourceClassName'' = JStr C"
      "js_get (details c3) ''targetClassName'' = JStr T" "T \<noteq> []"
      "truthy (js_get (details c3) ''name'')"
      "js_get (details c3) ''lowerBound'' = JNum l3" "js_get (details c3) ''upperBound'' = JNum u3"
    and target: "T = C \<or> findClassByName (loader M) (JStr T) \<noteq> None"
    and store: "rootPackage (loader M) = Some cs" "findClassByName (loader M) (JStr C) = None"
      "EClassifier (nextObject (loader M)) \<notin> set cs"
    and q: "ambiguities M = []" "pendingChanges M = []"
  shows "resultsOf (session c0 [c1, c2, c3] M) =
           Some (\<lparr>success = True, appliedChanges = [nextRef M], failedChanges = [], errors = []\<rparr>,
                 \<lparr>success = True,
                  appliedChanges = [Suc (nextRef M), Suc (Suc (nextRef M)), Suc (Suc (Suc (nextRef M)))],
                  failedChanges = [], errors = []\<rparr>)
       \<and> getClassAttributes_byName (loaderAfter (session c0 [c1, c2, c3] M) (loader M)) C =
           Inr [[''name'' \<mapsto> js_get (details c1) ''name'', ''type'' \<mapsto> n1,
                 ''lowerBound'' \<mapsto> JNum l1, ''upperBound'' \<mapsto> JNum (if u1 = 0 then 1 else u1)],
                [''name'' \<mapsto> js_get (details c2) ''name'', ''type'' \<mapsto> n2,
                 ''lowerBound'' \<mapsto> JNum l2, ''upperBound'' \<mapsto> JNum (if u2 = 0 then 1 else u2)]]
       \<and> getClassReferences_byName (loaderAfter (session c0 [c1, c2, c3] M) (loader M)) C =
           Inr [[''name'' \<mapsto> js_get (details c3) ''name'', ''type'' \<mapsto> JStr T,
                 ''containment'' \<mapsto> js_or (js_get (details c3) ''containment'') (JBool False),
                 ''lowerBound'' \<mapsto> JNum l3, ''upperBound'' \<mapsto> JNum (if u3 = 0 then 1 else u3)]]"
proof -
  let ?L = "loader M" and ?r = "nextRef M"
  define nO where "nO = nextObject ?L"
  \<comment> \<open>the class is added and applied\<close>
  have t0: "truthy (js_get (details c0) ''name'')" using c0 by simp
  have n0: "findClassByName ?L (js_get (details c0) ''name'') = None" using c0 store by simp
  from addClass_builder_clear [OF t0 n0]
  obtain m0 where m0: "createAddClassOperation ?L (details c0) = Inr m0"
    and m0f: "js_get m0 ''ambiguous'' = JBool False"
    and m0a: "js_get m0 ''action'' = JStr ''addClass''"
    and m0n: "js_get m0 ''className'' = JStr C"
    using c0 by auto
  have b0: "buildOperation (loader M) (js_toString (type c0) @ ''_'' @ js_toString (element c0))
              (details c0) = Some (Inr m0)"
    using c0 by (simp add: buildOperation_def m0)
  define op0 where "op0 = \<lparr>type = type c0, element = element c0, details = details c0,
                           status = ''pending'', ambiguous = False, ambiguityReason = JNull,
                           metamodelOperation = Some m0, error = None\<rparr>"
  define M1 where "M1 = M\<lparr>heap := (heap M)(?r := op0), nextRef := Suc ?r,
                           pendingChanges := pendingChanges M @ [?r],
                           evolutionOperations := evolutionOperations M @ [?r]\<rparr>"
  have i0: "interpretModelChange c0 M = Inr (?r, M1)"
    using interpret_files_pending [OF b0 m0f] by (simp add: M1_def op0_def)
  define cls where "cls = \<lparr>name = JStr C, abstract = JBool False, interface = JBool False,
                           eSuperTypes = [], eStructuralFeatures = []\<rparr>"
  define L1 where "L1 = ?L\<lparr>rootPackage := Some (cs @ [EClassifier (nextObject ?L)]),
                           objects := (objects ?L)(nextObject ?L := cls),
                           nextObject := Suc (nextObject ?L)\<rparr>"
  have ap0: "applyOperation (loader M1) (heap M1 ?r) = (None, L1)"
    using applyOperation_addClass [of op0 m0 ?L] createClass_fresh [OF store(1) store(2)]
    by (simp add: M1_def op0_def m0a m0n L1_def cls_def)
  define M2 where "M2 = M1\<lparr>loader := L1,
                            heap := (heap M1)(?r := (heap M1 ?r)\<lparr>status := ''applied''\<rparr>),
                            pendingChanges := []\<rparr>"
  have a0: "applyPendingChanges M1 =
              (\<lparr>success = True, appliedChanges = [?r], failedChanges = [], errors = []\<rparr>, M2)"
    using applyPending_one [of M1 ?r L1] ap0 q by (simp add: M1_def M2_def)
  \<comment> \<open>the store with the new class\<close>
  have find1: "\<And>v. findClassByName L1 v =
                 (if name cls = v then Some (nextObject ?L) else findClassByName ?L v)"
    by (rule findClassByName_after_createClass [OF store(1) store(3) L1_def])
  have fC: "findClassByName L1 (JStr C) = Some nO"
    by (simp add: find1 store(2) cls_def nO_def)
  have "\<exists>j. findClassByName L1 (JStr T) = Some j"
  proof (cases "T = C")
    case True
    then show ?thesis by (simp add: find1 cls_def)
  next
    case False
    with target show ?thesis by (auto simp add: find1 cls_def)
  qed
  then obtain j where fT: "findClassByName L1 (JStr T) = Some j" by blast
  have E1: "Ecore L1 = Ecore ?L" by (simp add: L1_def)
  have feat1: "eStructuralFeatures (objects L1 nO) = []" by (simp add: L1_def cls_def nO_def)
  have at1: "getClassAttributes L1 nO = Inr []" by (simp add: getClassAttributes_def feat1)
  have rf1: "getClassReferences L1 nO = Inr []" by (simp add: getClassReferences_def feat1)
  have nn: "\<And>v. \<not> someNamed [] v" by (simp add: someNamed_def)
  \<comment> \<open>the three features are interpreted\<close>
  have lM2: "loader M2 = L1" by (simp add: M2_def)
  have t1: "truthy (js_get (details c1) ''className'')" using c1 c0 by simp
  have k1: "findClassByName L1 (js_get (details c1) ''className'') = Some nO" using c1 fC by simp
  from addAttribute_builder_clear [OF t1 c1(4) k1 at1 nn]
  obtain m1 where m1: "createAddAttributeOperation L1 (details c1) = Inr m1"
    and m1f: "js_get m1 ''ambiguous'' = JBool False"
    and m1a: "js_get m1 ''action'' = JStr ''addAttribute''"
    and m1c: "js_get m1 ''className'' = JStr C"
    and m1n: "js_get m1 ''attributeName'' = js_get (details c1) ''name''"
    and m1t: "js_get m1 ''attributeType'' = JStr t1"
    and m1l: "js_get m1 ''lowerBound'' = JNum l1"
    and m1u: "js_get m1 ''upperBound'' = JNum (if u1 = 0 then 1 else u1)"
    using c1 by (auto simp add: js_or_num)
  have t2: "truthy (js_get (details c2) ''className'')" using c2 c0 by simp
  have k2: "findClassByName L1 (js_get (details c2) ''className'') = Some nO" using c2 fC by simp
  from addAttribute_builder_clear [OF t2 c2(4) k2 at1 nn]
  obtain m2 where m2: "createAddAttributeOperation L1 (details c2) = Inr m2"
    and m2f: "js_get m2 ''ambiguous'' = JBool False"
    and m2a: "js_get m2 ''action'' = JStr ''addAttribute''"
    and m2c: "js_get m2 ''className'' = JStr C"
    and m2n: "js_get m2 ''attributeName'' = js_get (details c2) ''name''"
    and m2t: "js_get m2 ''attributeType'' = JStr t2"
    and m2l: "js_get m2 ''lowerBound'' = JNum l2"
    and m2u: "js_get m2 ''upperBound'' = JNum (if u2 = 0 then 1 else u2)"
    using c2 by (auto simp add: js_or_num)
  have t3s: "truthy (js_get (details c3) ''sourceClassName'')" using c3 c0 by simp
  have t3t: "truthy (js_get (details c3) ''targetClassName'')" using c3 by simp
  have k3s: "findClassByName L1 (js_get (details c3) ''sourceClassName'') = Some nO"
    using c3 fC by simp
  have k3t: "findClassByName L1 (js_get (details c3) ''targetClassName'') = Some j"
    using c3 fT by simp
  from addReference_builder_clear [OF t3s t3t c3(6) k3s k3t rf1 nn]
  obtain m3 where m3: "createAddReferenceOperation L1 (details c3) = Inr m3"
    and m3f: "js_get m3 ''ambiguous'' = JBool False"
    and m3a: "js_get m3 ''action'' = JStr ''addReference''"
    and m3s: "js_get m3 ''sourceClassName'' = JStr C"
    and m3t: "js_get m3 ''targetClassName'' = JStr T"
    and m3n: "js_get m3 ''referenceName'' = js_get (details c3) ''name''"
    and m3c: "js_get m3 ''containment'' = js_or (js_get (details c3) ''containment'') (JBool False)"
    and m3l: "js_get m3 ''lowerBound'' = JNum l3"
    and m3u: "js_get m3 ''upperBound'' = JNum (if u3 = 0 then 1 else u3)"
    using c3 by (auto simp add: js_or_num)
  define op1 where "op1 = \<lparr>type = type c1, element = element c1, details = details c1,
                           status = ''pending'', ambiguous = False, ambiguityReason = JNull,
                           metamodelOperation = Some m1, error = None\<rparr>"
  define op2 where "op2 = \<lparr>type = type c2, element = element c2, details = details c2,
                           status = ''pending'', ambiguous = False, ambiguityReason = JNull,
                           metamodelOperation = Some m2, error = None\<rparr>"
  define op3 where "op3 = \<lparr>type = type c3, element = element c3, details = details c3,
                           status = ''pending'', ambiguous = False, ambiguityReason = JNull,
                           metamodelOperation = Some m3, error = None\<rparr>"
  define M3 where "M3 = M2\<lparr>heap := (heap M2)(Suc ?r := op1), nextRef := Suc (Suc ?r),
                            pendingChanges := [Suc ?r],
                            evolutionOperations := evolutionOperations M2 @ [Suc ?r]\<rparr>"
  define M4 where "M4 = M3\<lparr>heap := (heap M3)(Suc (Suc ?r) := op2), nextRef := Suc (Suc (Suc ?r)),
                            pendingChanges := [Suc ?r, Suc (Suc ?r)],
                            evolutionOperations := evolutionOperations M3 @ [Suc (Suc ?r)]\<rparr>"
  define M5 where "M5 = M4\<lparr>heap := (heap M4)(Suc (Suc (Suc ?r)) := op3),
                            nextRef := Suc (Suc (Suc (Suc ?r))),
                            pendingChanges := [Suc ?r, Suc (Suc ?r), Suc (Suc (Suc ?r))],
                            evolutionOperations := evolutionOperations M4 @ [Suc (Suc (Suc ?r))]\<rparr>"
  have b1: "buildOperation (loader M2) (js_toString (type c1) @ ''_'' @ js_toString (element c1))
              (details c1) = Some (Inr m1)"
    using c1 by (simp add: buildOperation_def m1 lM2)
  have i1: "interpretModelChange c1 M2 = Inr (Suc ?r, M3)"
    using interpret_files_pending [OF b1 m1f] by (simp add: M3_def op1_def M2_def M1_def)
  have lM3: "loader M3 = L1" by (simp add: M3_def lM2)
  have b2: "buildOperation (loader M3) (js_toString (type c2) @ ''_'' @ js_toString (element c2))
              (details c2) = Some (Inr m2)"
    using c2 by (simp add: buildOperation_def m2 lM3)
  have i2: "interpretModelChange c2 M3 = Inr (Suc (Suc ?r), M4)"
    using interpret_files_pending [OF b2 m2f] by (simp add: M4_def op2_def M3_def)
  have lM4: "loader M4 = L1" by (simp add: M4_def lM3)
  have b3: "buildOperation (loader M4) (js_toString (type c3) @ ''_'' @ js_toString (element c3))
              (details c3) = Some (Inr m3)"
    using c3 by (simp add: buildOperation_def m3 lM4)
  have i3: "interpretModelChange c3 M4 = Inr (Suc (Suc (Suc ?r)), M5)"
    using interpret_files_pending [OF b3 m3f] by (simp add: M5_def op3_def M4_def)
  have iall: "interpretAll [c1, c2, c3] M2 =
                Inr ([Suc ?r, Suc (Suc ?r), Suc (Suc (Suc ?r))], M5)"
    by (rule interpretAll_three [OF i1 i2 i3])
  \<comment> \<open>the three features are applied\<close>
  define f1 where "f1 = \<lparr>name = js_get (details c1) ''name'', kind = EAttribute,
                         eType = DataType n1, containment = JUndefined,
                         lowerBound = JNum l1, upperBound = JNum (if u1 = 0 then 1 else u1)\<rparr>"
  define f2 where "f2 = \<lparr>name = js_get (details c2) ''name'', kind = EAttribute,
                         eType = DataType n2, containment = JUndefined,
                         lowerBound = JNum l2, upperBound = JNum (if u2 = 0 then 1 else u2)\<rparr>"
  define f3 where "f3 = \<lparr>name = js_get (details c3) ''name'', kind = EReference,
                         eType = ClassObj j,
                         containment = js_or (js_get (details c3) ''containment'') (JBool False),
                         lowerBound = JNum l3, upperBound = JNum (if u3 = 0 then 1 else u3)\<rparr>"
  define L2 where "L2 = addFeature L1 nO f1"
  define L3 where "L3 = addFeature L2 nO f2"
  define L4 where "L4 = addFeature L3 nO f3"
  have h5: "heap M5 (Suc ?r) = op1" "heap M5 (Suc (Suc ?r)) = op2"
    "heap M5 (Suc (Suc (Suc ?r))) = op3"
    by (simp_all add: M5_def M4_def M3_def)
  have lM5: "loader M5 = L1" by (simp add: M5_def lM4)
  have E1': "Ecore L1 t1 = Some (DataType n1)" "Ecore L1 t2 = Some (DataType n2)"
    using c1 c2 by (simp_all add: E1)
  have ap1: "applyOperation (loader M5) (heap M5 (Suc ?r)) = (None, L2)"
    using applyOperation_addAttribute [of op1 m1 L1] addAttribute_found [OF fC E1'(1)]
    by (simp add: h5 lM5 op1_def m1a m1c m1n m1t m1l m1u L2_def f1_def default_param_def)
  have fC2: "findClassByName L2 (JStr C) = Some nO"
    by (simp add: L2_def findClassByName_addFeature fC)
  have E2: "Ecore L2 t2 = Some (DataType n2)"
    by (simp add: L2_def addFeature_simps E1')
  have ap2: "applyOperation L2 (heap M5 (Suc (Suc ?r))) = (None, L3)"
    using applyOperation_addAttribute [of op2 m2 L2] addAttribute_found [OF fC2 E2]
    by (simp add: h5 op2_def m2a m2c m2n m2t m2l m2u L3_def f2_def default_param_def)
  have fC3: "findClassByName L3 (JStr C) = Some nO"
    by (simp add: L3_def findClassByName_addFeature fC2)
  have fT3: "findClassByName L3 (JStr T) = Some j"
    by (simp add: L3_def L2_def findClassByName_addFeature fT)
  have co: "default_param (js_or (js_get (details c3) ''containment'') (JBool False)) (JBool False)
              = js_or (js_get (details c3) ''containment'') (JBool False)"
    by simp
  have ap3: "applyOperation L3 (heap M5 (Suc (Suc (Suc ?r)))) = (None, L4)"
    using applyOperation_addReference [of op3 m3 L3] addReference_found [OF fC3 fT3]
    by (simp add: h5 op3_def m3a m3s m3t m3n m3c m3l m3u L4_def f3_def co)
       (simp add: default_param_def)
  have q5: "ambiguities M5 = []" "pendingChanges M5 = [Suc ?r, Suc (Suc ?r), Suc (Suc (Suc ?r))]"
    using q by (simp_all add: M5_def M4_def M3_def M2_def M1_def)
  have a5: "fst (applyPendingChanges M5) =
              \<lparr>success = True,
               appliedChanges = [Suc ?r, Suc (Suc ?r), Suc (Suc (Suc ?r))],
               failedChanges = [], errors = []\<rparr>
          \<and> loader (snd (applyPendingChanges M5)) = L4"
    by (rule applyPending_three [OF q5 _ _ _ ap1 ap2 ap3]) simp_all
  \<comment> \<open>the session and the store it leaves\<close>
  have sess: "session c0 [c1, c2, c3] M =
                Inr (\<lparr>success = True, appliedChanges = [?r], failedChanges = [], errors = []\<rparr>,
                     fst (applyPendingChanges M5), snd (applyPendingChanges M5))"
    by (simp add: session_def bindE_def i0 a0 iall split: prod.splits)
  have la: "loaderAfter (session c0 [c1, c2, c3] M) ?L = L4"
    by (simp add: sess loaderAfter_def a5)
  have res: "resultsOf (session c0 [c1, c2, c3] M) =
           Some (\<lparr>success = True, appliedChanges = [?r], failedChanges = [], errors = []\<rparr>,
                 \<lparr>success = True,
                  appliedChanges = [Suc ?r, Suc (Suc ?r), Suc (Suc (Suc ?r))],
                  failedChanges = [], errors = []\<rparr>)"
    by (simp add: sess resultsOf_def a5)
  have fC4: "findClassByName L4 (JStr C) = Some nO"
    by (simp add: L4_def findClassByName_addFeature fC3)
  have at2: "getClassAttributes L2 nO = Inr [attributeInfo f1 n1]"
    by (simp add: L2_def getClassAttributes_addFeature at1 f1_def)
  have at3: "getClassAttributes L3 nO = Inr [attributeInfo f1 n1, attributeInfo f2 n2]"
    by (simp add: L3_def getClassAttributes_addFeature at2) (simp add: f2_def)
  have at4: "getClassAttributes L4 nO = Inr [attributeInfo f1 n1, attributeInfo f2 n2]"
    by (simp add: L4_def getClassAttributes_addFeature at3) (simp add: f3_def)
  have rf2: "getClassReferences L2 nO = Inr []"
    by (simp add: L2_def getClassReferences_addFeature rf1) (simp add: f1_def)
  have rf3: "getClassReferences L3 nO = Inr []"
    by (simp add: L3_def getClassReferences_addFeature rf2) (simp add: f2_def)
  have nT: "name (objects L3 j) = JStr T"
    by (rule findClassByName_name [OF fT3])
  have rf4: "getClassReferences L4 nO = Inr [referenceInfo f3 (JStr T)]"
    by (simp add: L4_def getClassReferences_addFeature rf3) (simp add: f3_def nT)
  show ?thesis
    unfolding la
    using res at4 rf4 fC4
    by (simp add: getClassAttributes_byName_def getClassReferences_byName_def
        attributeInfo_def referenceInfo_def f1_def f2_def f3_def)
qed


text \<open>
  The claim C6 says that after the session the queries return the three features with
  the bounds supplied in the descriptors. Here the change that adds \<open>phones\<close> supplies
  the upper bound 0, both batches succeed, and the attribute comes back with the upper
  bound 1.
\<close>

lemma zeroUpperSession_facts:
  "type addCustomer = JStr ''add''" "element addCustomer = JStr ''class''"
  "js_get (details addCustomer) ''name'' = JStr ''Customer''" "''Customer'' \<noteq> []"
  "type addFirstName = JStr ''add''" "element addFirstName = JStr ''attribute''"
  "js_get (details addFirstName) ''className'' = JStr ''Customer''"
  "truthy (js_get (details addFirstName) ''name'')"
  "js_or (js_get (details addFirstName) ''type'') (JStr ''EString'') = JStr ''EString''"
  "Ecore (loader sampleManager) ''EString'' = Some (DataType (JStr ''EString''))"
  "js_get (details addFirstName) ''lowerBound'' = JNum 1"
  "js_get (details addFirstName) ''upperBound'' = JNum 1"
  "type addNoPhones = JStr ''add''" "element addNoPhones = JStr ''attribute''"
  "js_get (details addNoPhones) ''className'' = JStr ''Customer''"
  "truthy (js_get (details addNoPhones) ''name'')"
  "js_or (js_get (details addNoPhones) ''type'') (JStr ''EString'') = JStr ''EString''"
  "Ecore (loader sampleManager) ''EString'' = Some (DataType (JStr ''EString''))"
  "js_get (details addNoPhones) ''lowerBound'' = JNum 0"
  "js_get (details addNoPhones) ''upperBound'' = JNum 0"
  "type addAccountManagers = JStr ''add''" "element addAccountManagers = JStr ''reference''"
  "js_get (details addAccountManagers) ''sourceClassName'' = JStr ''Customer''"
  "js_get (details addAccountManagers) ''targetClassName'' = JStr ''Employee''"
  "''Employee'' \<noteq> []"
  "truthy (js_get (details addAccountManagers) ''name'')"
  "js_get (details addAccountManagers) ''lowerBound'' = JNum 0"
  "js_get (details addAccountManagers) ''upperBound'' = JNum (- 1)"
  "''Employee'' = ''Customer'' \<or> findClassByName (loader sampleManager) (JStr ''Employee'') \<noteq> None"
  "rootPackage (loader sampleManager)
     = Some [EClassifier 0, EClassifier 1, OtherClassifier, EClassifier 2]"
  "findClassByName (loader sampleManager) (JStr ''Customer'') = None"
  "EClassifier (nextObject (loader sampleManager))
     \<notin> set [EClassifier 0, EClassifier 1, OtherClassifier, EClassifier 2]"
  "ambiguities sampleManager = []" "pendingChanges sampleManager = []"
  by (simp_all add: addCustomer_def addFirstName_def addNoPhones_def addAccountManagers_def
      sample_defs findClassByName_def js_get_def js_or_def)

theorem supplied_upper_bound_zero_is_not_kept:
  "js_get (details addNoPhones) ''upperBound'' = JNum 0
   \<and> resultsOf (session addCustomer [addFirstName, addNoPhones, addAccountManagers] sampleManager)
       = Some (\<lparr>success = True, appliedChanges = [0], failedChanges = [], errors = []\<rparr>,
               \<lparr>success = True, appliedChanges = [1, 2, 3], failedChanges = [], errors = []\<rparr>)
   \<and> getClassAttributes_byName
         (loaderAfter (session addCustomer [addFirstName, addNoPhones, addAccountManagers] sampleManager)
            sampleLoader) ''Customer''
       = Inr [[''name'' \<mapsto> JStr ''firstName'', ''type'' \<mapsto> JStr ''EString'',
               ''lowerBound'' \<mapsto> JNum 1, ''upperBound'' \<mapsto> JNum 1],
              [''name'' \<mapsto> JStr ''phones'', ''type'' \<mapsto> JStr ''EString'',
               ''lowerBound'' \<mapsto> JNum 0, ''upperBound'' \<mapsto> JNum 1]]"
proof -
  have n: "nextRef sampleManager = 0" "loader sampleManager = sampleLoader"
    by (simp_all add: sampleManager_def newManager_def)
  have d: "js_get (details addFirstName) ''name'' = JStr ''firstName''"
    "js_get (details addNoPhones) ''name'' = JStr ''phones''"
    by (simp_all add: addFirstName_def addNoPhones_def change_def js_get_def)
  show ?thesis
    using session_round_trip [OF zeroUpperSession_facts] zeroUpperSession_facts(20)
    by (simp add: n d)
qed

text \<open>
  Claim C6, as the code has it. A class with a fresh name is added and applied; two
  changes that add attributes to it and one that adds a reference from it are then
  interpreted (all three are pending) and applied. \<open>getClassAttributes\<close> and
  \<open>getClassReferences\<close> on the class return exactly these three features, with the
  lower bounds supplied and, for every supplied upper bound other than 0, the upper
  bound supplied; an upper bound of \<open>-1\<close> comes back as \<open>-1\<close>.
\<close>

theorem round_trip_keeps_features_and_bounds:
  assumes c0: "type c0 = JStr ''add''" "element c0 = JStr ''class''"
      "js_get (details c0) ''name'' = JStr C" "C \<noteq> []"
    and c1: "type c1 = JStr ''add''" "element c1 = JStr ''attribute''"
      "js_get (details c1) ''className'' = JStr C" "truthy (js_get (details c1) ''name'')"
      "js_or (js_get (details c1) ''type'') (JStr ''EString'') = JStr t1"
      "Ecore (loader M) t1 = Some (DataType n1)"
      "js_get (details c1) ''lowerBound'' = JNum l1" "js_get (details c1) ''upperBound'' = JNum u1"
    and c2: "type c2 = JStr ''add''" "element c2 = JStr ''attribute''"
      "js_get (details c2) ''className'' = JStr C" "truthy (js_get (details c2) ''name'')"
      "js_or (js_get (details c2) ''type'') (JStr ''EString'') = JStr t2"
      "Ecore (loader M) t2 = Some (DataType n2)"
      "js_get (details c2) ''lowerBound'' = JNum l2" "js_get (details c2) ''upperBound'' = JNum u2"
    and c3: "type c3 = JStr ''add''" "element c3 = JStr ''reference''"
      "js_get (details c3) ''sourceClassName'' = JStr C"
      "js_get (details c3) ''targetClassName'' = JStr T" "T \<noteq> []"
      "truthy (js_get (details c3) ''name'')"
      "js_get (details c3) ''lowerBound'' = JNum l3" "js_get (details c3) ''upperBound'' = JNum u3"
    and target: "T = C \<or> findClassByName (loader M) (JStr T) \<noteq> None"
    and store: "rootPackage (loader M) = Some cs" "findClassByName (loader M) (JStr C) = None"
      "EClassifier (nextObject (loader M)) \<notin> set cs"
    and q: "ambiguities M = []" "pendingChanges M = []"
    and nonzero: "u1 \<noteq> 0" "u2 \<noteq> 0" "u3 \<noteq> 0"
  shows "resultsOf (session c0 [c1, c2, c3] M) =
           Some (\<lparr>success = True, appliedChanges = [nextRef M], failedChanges = [], errors = []\<rparr>,
                 \<lparr>success = True,
                  appliedChanges = [Suc (nextRef M), Suc (Suc (nextRef M)), Suc (Suc (Suc (nextRef M)))],
                  failedChanges = [], errors = []\<rparr>)
       \<and> getClassAttributes_byName (loaderAfter (session c0 [c1, c2, c3] M) (loader M)) C =
           Inr [[''name'' \<mapsto> js_get (details c1) ''name'', ''type'' \<mapsto> n1,
                 ''lowerBound'' \<mapsto> JNum l1, ''upperBound'' \<mapsto> JNum u1],
                [''name'' \<mapsto> js_get (details c2) ''name'', ''type'' \<mapsto> n2,
                 ''lowerBound'' \<mapsto> JNum l2, ''upperBound'' \<mapsto> JNum u2]]
       \<and> getClassReferences_byName (loaderAfter (session c0 [c1, c2, c3] M) (loader M)) C =
           Inr [[''name'' \<mapsto> js_get (details c3) ''name'', ''type'' \<mapsto> JStr T,
                 ''containment'' \<mapsto> js_or (js_get (details c3) ''containment'') (JBool False),
                 ''lowerBound'' \<mapsto> JNum l3, ''upperBound'' \<mapsto> JNum u3]]"
  using session_round_trip [OF c0 c1 c2 c3 target store q] nonzero by simp

lemma customerSession_facts:
  "type addCustomer = JStr ''add''" "element addCustomer = JStr ''class''"
  "js_get (details addCustomer) ''name'' = JStr ''Customer''" "''Customer'' \<noteq> []"
  "type addFirstName = JStr ''add''" "element addFirstName = JStr ''attribute''"
  "js_get (details addFirstName) ''className'' = JStr ''Customer''"
  "truthy (js_get (details addFirstName) ''name'')"
  "js_or (js_get (details addFirstName) ''type'') (JStr ''EString'') = JStr ''EString''"
  "Ecore (loader sampleManager) ''EString'' = Some (DataType (JStr ''EString''))"
  "js_get (details addFirstName) ''lowerBound'' = JNum 1"
  "js_get (details addFirstName) ''upperBound'' = JNum 1"
  "type addPhones = JStr ''add''" "element addPhones = JStr ''attribute''"
  "js_get (details addPhones) ''className'' = JStr ''Customer''"
  "truthy (js_get (details addPhones) ''name'')"
  "js_or (js_get (details addPhones) ''type'') (JStr ''EString'') = JStr ''EString''"
  "Ecore (loader sampleManager) ''EString'' = Some (DataType (JStr ''EString''))"
  "js_get (details addPhones) ''lowerBound'' = JNum 0"
  "js_get (details addPhones) ''upperBound'' = JNum (- 1)"
  "type addAccountManagers = JStr ''add''" "element addAccountManagers = JStr ''reference''"
  "js_get (details addAccountManagers) ''sourceClassName'' = JStr ''Customer''"
  "js_get (details addAccountManagers) ''targetClassName'' = JStr ''Employee''"
  "''Employee'' \<noteq> []"
  "truthy (js_get (details addAccountManagers) ''name'')"
  "js_get (details addAccountManagers) ''lowerBound'' = JNum 0"
  "js_get (details addAccountManagers) ''upperBound'' = JNum (- 1)"
  "''Employee'' = ''Customer'' \<or> findClassByName (loader sampleManager) (JStr ''Employee'') \<noteq> None"
  "rootPackage (loader sampleManager)
     = Some [EClassifier 0, EClassifier 1, OtherClassifier, EClassifier 2]"
  "findClassByName (loader sampleManager) (JStr ''Customer'') = None"
  "EClassifier (nextObject (loader sampleManager))
     \<notin> set [EClassifier 0, EClassifier 1, OtherClassifier, EClassifier 2]"
  "ambiguities sampleManager = []" "pendingChanges sampleManager = []"
  "(1::int) \<noteq> 0" "(- 1::int) \<noteq> 0" "(- 1::int) \<noteq> 0"
  by (simp_all add: addCustomer_def addFirstName_def addPhones_def addAccountManagers_def
      sample_defs findClassByName_def js_get_def js_or_def)

theorem round_trip_keeps_features_and_bounds_witness:
  "findClassByName (loader sampleManager) (JStr ''Customer'') = None
   \<and> js_get (details addPhones) ''upperBound'' = JNum (- 1)
   \<and> js_get (details addAccountManagers) ''upperBound'' = JNum (- 1)
   \<and> resultsOf (session addCustomer [addFirstName, addPhones, addAccountManagers] sampleManager)
       = Some (\<lparr>success = True, appliedChanges = [0], failedChanges = [], errors = []\<rparr>,
               \<lparr>success = True, appliedChanges = [1, 2, 3], failedChanges = [], errors = []\<rparr>)
   \<and> getClassAttributes_byName
         (loaderAfter (session addCustomer [addFirstName, addPhones, addAccountManagers] sampleManager)
            sampleLoader) ''Customer''
       = Inr [[''name'' \<mapsto> JStr ''firstName'', ''type'' \<mapsto> JStr ''EString'',
               ''lowerBound'' \<mapsto> JNum 1, ''upperBound'' \<mapsto> JNum 1],
              [''name'' \<mapsto> JStr ''phones'', ''type'' \<mapsto> JStr ''EString'',
               ''lowerBound'' \<mapsto> JNum 0, ''upperBound'' \<mapsto> JNum (- 1)]]
   \<and> getClassReferences_byName
         (loaderAfter (session addCustomer [addFirstName, addPhones, addAccountManagers] sampleManager)
            sampleLoader) ''Customer''
       = Inr [[''name'' \<mapsto> JStr ''accountManagers'', ''type'' \<mapsto> JStr ''Employee'',
               ''containment'' \<mapsto> JBool False,
               ''lowerBound'' \<mapsto> JNum 0, ''upperBound'' \<mapsto> JNum (- 1)]]"
proof -
  have n: "nextRef sampleManager = 0" "loader sampleManager = sampleLoader"
    by (simp_all add: sampleManager_def newManager_def)
  have d: "js_get (details addFirstName) ''name'' = JStr ''firstName''"
    "js_get (details addPhones) ''name'' = JStr ''phones''"
    "js_get (details addAccountManagers) ''name'' = JStr ''accountManagers''"
    "js_or (js_get (details addAccountManagers) ''containment'') (JBool False) = JBool False"
    by (simp_all add: addFirstName_def addPhones_def addAccountManagers_def change_def
        js_get_def js_or_def)
  show ?thesis
    using round_trip_keeps_features_and_bounds [OF customerSession_facts]
      customerSession_facts(31) customerSession_facts(20) customerSession_facts(28)
    by (simp add: n d)
qed

end
